theory Spec2Isabelle
  imports Complex_Main
begin

section \<open>Conventions of the embedding\<close>

text \<open>
  The engine is JavaScript. Property names are JavaScript strings and are kept as
  \<^typ>\<open>string\<close>, because the code validates arbitrary names and accepts the legacy
  names \<open>rock\<close>, \<open>paper\<close>, \<open>scissors\<close> next to \<open>deception\<close>, \<open>magic\<close>, \<open>attack\<close>.
  Property values, scores, indices and counters are integral JavaScript numbers and are
  modelled as \<^typ>\<open>int\<close>; \<open>Number.isInteger\<close> is therefore true of every value of
  the model. An object literal used as a lookup table is an association list read with
  \<^const>\<open>map_of\<close>, so that the order of its entries is kept. \<open>null\<close> is \<^const>\<open>None\<close>.
  A \<open>throw\<close> is a value \<open>Inl e\<close> of the sum type; the normal result is \<open>Inr\<close>.

  Names that JavaScript finds on \<open>Object.prototype\<close> (\<open>toString\<close>, \<open>constructor\<close>, ...)
  are not property names of the game; a table lookup on any other string is the lookup in
  the association list.

  Not modelled: wall-clock readings (\<open>Date.now()\<close>: time stamps, match duration), the
  random match identifier, and texts that are only displayed (the explanation of a round,
  instructions, icons). No operation of the engine branches on them.
\<close>

section \<open>Configuration (shared/core/game-config.js)\<close>

datatype phase =
    CARD_SELECTION | PROPERTY_SELECTION | ROUND_RESULT | AUTO_ROUND
  | CARD_COMPLETE | GAME_OVER | WAITING

datatype error =
    InvalidPropertyNames
  | InvalidPropertyValues
  | CardSumError int
  | CardRangeError
  | InvalidPropertyName string
  | InvalidProperty string
  | PropertyNotAvailable string int
  | InvalidPlayerNumber int
  | RoundNotReady
  | CannotAutoPlay
  | InvalidRoundManagerState
  | InvalidScoreManagerState
  | InvalidMatchState
  | InvalidPlayerCards
  | CannotSelectCard phase
  | InvalidCardIndex int
  | CardAlreadyUsed int
  | CannotSelectProperty phase
  | NegativePoints
  | NoAvailableProperties
  | TypeError

definition PROPERTY_SUM :: int where "PROPERTY_SUM = 20"
definition MIN_PROPERTY_VALUE :: int where "MIN_PROPERTY_VALUE = 1"
definition MAX_PROPERTY_VALUE :: int where "MAX_PROPERTY_VALUE = 9"
definition CARDS_PER_PLAYER :: int where "CARDS_PER_PLAYER = 3"
definition ROUNDS_PER_CARD :: int where "ROUNDS_PER_CARD = 3"
definition TOTAL_CARD_GAMES :: int where "TOTAL_CARD_GAMES = 3"
definition AUTO_PLAY_FINAL_ROUND :: bool where "AUTO_PLAY_FINAL_ROUND = True"

text \<open>\<open>GameConfig.PROPERTIES\<close> and \<open>GameConfig.LEGACY_PROPERTIES\<close>, key and value.\<close>

definition PROPERTIES :: "(string \<times> string) list" where
  "PROPERTIES = [(''DECEPTION'', ''deception''), (''MAGIC'', ''magic''), (''ATTACK'', ''attack'')]"

definition LEGACY_PROPERTIES :: "(string \<times> string) list" where
  "LEGACY_PROPERTIES = [(''ROCK'', ''rock''), (''PAPER'', ''paper''), (''SCISSORS'', ''scissors'')]"

text \<open>\<open>GameConfig.SCORING\<close>.\<close>

definition WIN_BONUS :: int where "WIN_BONUS = 0"
definition PERFECT_GAME_BONUS :: int where "PERFECT_GAME_BONUS = 0"
definition COMEBACK_BONUS :: int where "COMEBACK_BONUS = 0"
definition MIN_SCORE :: int where "MIN_SCORE = 0"
definition MAX_SINGLE_ROUND_SCORE :: int where "MAX_SINGLE_ROUND_SCORE = 8"

text \<open>\<open>GameConfig.getAllProperties\<close>: \<open>Object.values(this.PROPERTIES)\<close>.\<close>

definition getAllProperties :: "string list" where
  "getAllProperties = map snd PROPERTIES"

text \<open>\<open>GameConfig.isValidProperty\<close>: a current or a legacy name.\<close>

definition GameConfig_isValidProperty :: "string \<Rightarrow> bool" where
  "GameConfig_isValidProperty property =
     (property \<in> set (map snd PROPERTIES) \<or> property \<in> set (map snd LEGACY_PROPERTIES))"

section \<open>The scoring rule (shared/core/game-rules.js)\<close>

text \<open>\<open>GameRules.WINNING_RULES\<close>: the key beats the value.\<close>

definition WINNING_RULES :: "(string \<times> string) list" where
  "WINNING_RULES =
     [(''deception'', ''attack''), (''attack'', ''magic''), (''magic'', ''deception'')]"

definition LEGACY_PROPERTY_MAP :: "(string \<times> string) list" where
  "LEGACY_PROPERTY_MAP =
     [(''rock'', ''deception''), (''paper'', ''magic''), (''scissors'', ''attack'')]"

definition VALID_PROPERTIES :: "string list" where
  "VALID_PROPERTIES = [''deception'', ''magic'', ''attack'']"

text \<open>\<open>LEGACY_PROPERTY_MAP[property] || property\<close>; every value of the table is a
  non-empty string, hence truthy.\<close>

definition normalizeProperty :: "string \<Rightarrow> string" where
  "normalizeProperty property =
     (case map_of LEGACY_PROPERTY_MAP property of Some p \<Rightarrow> p | None \<Rightarrow> property)"

definition isValidProperty :: "string \<Rightarrow> bool" where
  "isValidProperty property = (normalizeProperty property \<in> set VALID_PROPERTIES)"

definition isValidPropertyValue :: "int \<Rightarrow> bool" where
  "isValidPropertyValue v = (v \<ge> 1 \<and> v \<le> 9)"

text \<open>\<open>GameRules.doesPropertyBeat\<close>: \<open>WINNING_RULES[normalized1] === normalized2\<close>.\<close>

definition doesPropertyBeat :: "string \<Rightarrow> string \<Rightarrow> bool" where
  "doesPropertyBeat prop1 prop2 =
     (map_of WINNING_RULES (normalizeProperty prop1) = Some (normalizeProperty prop2))"

text \<open>\<open>GameRules.calculateRoundScore\<close>, statement by statement.\<close>

definition calculateRoundScore :: "string \<Rightarrow> int \<Rightarrow> string \<Rightarrow> int \<Rightarrow> error + (int \<times> int)" where
  "calculateRoundScore prop1 val1 prop2 val2 =
     (if \<not> (isValidProperty prop1 \<and> isValidProperty prop2) then Inl InvalidPropertyNames
      else if \<not> (isValidPropertyValue val1 \<and> isValidPropertyValue val2)
        then Inl InvalidPropertyValues
      else
        let p1 = normalizeProperty prop1; p2 = normalizeProperty prop2 in
        if p1 = p2 then
          (if val1 > val2 then Inr (val1 - val2, 0)
           else if val2 > val1 then Inr (0, val2 - val1)
           else Inr (0, 0))
        else if map_of WINNING_RULES p1 = Some p2 \<and> val1 > val2 then Inr (val1 - val2, 0)
        else if map_of WINNING_RULES p2 = Some p1 \<and> val2 > val1 then Inr (0, val2 - val1)
        else Inr (0, 0))"

section \<open>Cards (shared/core/card.js)\<close>

text \<open>A \<open>Card\<close> object. Its fields \<open>rock\<close>, \<open>paper\<close>, \<open>scissors\<close> are copies of
  \<open>deception\<close>, \<open>magic\<close>, \<open>attack\<close> set once by the constructor, and the object is
  frozen; they are read through \<open>Card_getProperty\<close>.\<close>

record card =
  card_id :: int
  deception :: int
  magic :: int
  attack :: int

text \<open>\<open>Card.isValidProperty(value)\<close>: the range check on one value.\<close>

definition Card_isValidProperty :: "int \<Rightarrow> bool" where
  "Card_isValidProperty v = (v \<ge> 1 \<and> v \<le> 9)"

text \<open>The constructor: the sum is checked first, then the ranges.\<close>

definition Card_new :: "int \<Rightarrow> int \<Rightarrow> int \<Rightarrow> int \<Rightarrow> error + card" where
  "Card_new ident d m a =
     (if d + m + a \<noteq> 20 then Inl (CardSumError (d + m + a))
      else if \<not> (Card_isValidProperty d \<and> Card_isValidProperty m \<and> Card_isValidProperty a)
        then Inl CardRangeError
      else Inr \<lparr>card_id = ident, deception = d, magic = m, attack = a\<rparr>)"

text \<open>\<open>Card.getProperty\<close>: the table \<open>propertyMap\<close> sends each of the six names to a
  field; a name outside the table throws.\<close>

definition propertyMap :: "(string \<times> string) list" where
  "propertyMap =
     [(''rock'', ''deception''), (''paper'', ''magic''), (''scissors'', ''attack''),
      (''deception'', ''deception''), (''magic'', ''magic''), (''attack'', ''attack'')]"

definition Card_field :: "card \<Rightarrow> string \<Rightarrow> int" where
  "Card_field c f =
     (if f = ''deception'' then deception c else if f = ''magic'' then magic c else attack c)"

definition Card_getProperty :: "card \<Rightarrow> string \<Rightarrow> error + int" where
  "Card_getProperty c property =
     (case map_of propertyMap property of
        None \<Rightarrow> Inl (InvalidPropertyName property)
      | Some mappedProperty \<Rightarrow> Inr (Card_field c mappedProperty))"

text \<open>\<open>getHighestProperty\<close> and \<open>getLowestProperty\<close>: \<open>reduce\<close> without an initial
  value starts from the first entry and replaces it only on a strict improvement.\<close>

definition Card_properties :: "card \<Rightarrow> (string \<times> int) list" where
  "Card_properties c =
     [(''deception'', deception c), (''magic'', magic c), (''attack'', attack c)]"

definition getHighestProperty :: "card \<Rightarrow> string \<times> int" where
  "getHighestProperty c =
     fold (\<lambda>current mx. if snd current > snd mx then current else mx)
       (tl (Card_properties c)) (hd (Card_properties c))"

definition getLowestProperty :: "card \<Rightarrow> string \<times> int" where
  "getLowestProperty c =
     fold (\<lambda>current mn. if snd current < snd mn then current else mn)
       (tl (Card_properties c)) (hd (Card_properties c))"

definition isBalanced :: "card \<Rightarrow> bool" where
  "isBalanced c = (snd (getHighestProperty c) - snd (getLowestProperty c) \<le> 3)"

definition getRarity :: "card \<Rightarrow> string" where
  "getRarity c =
     (let difference = snd (getHighestProperty c) - snd (getLowestProperty c) in
      if difference \<le> 1 then ''Legendary''
      else if difference \<le> 3 then ''Epic''
      else if difference \<le> 5 then ''Rare''
      else ''Common'')"

text \<open>\<open>toJSON\<close> and \<open>fromJSON\<close>.\<close>

record card_json =
  json_id :: int
  json_deception :: int
  json_magic :: int
  json_attack :: int
  json_rarity :: string
  json_balanced :: bool

definition Card_toJSON :: "card \<Rightarrow> card_json" where
  "Card_toJSON c =
     \<lparr>json_id = card_id c, json_deception = deception c, json_magic = magic c,
      json_attack = attack c, json_rarity = getRarity c, json_balanced = isBalanced c\<rparr>"

definition Card_fromJSON :: "card_json \<Rightarrow> error + card" where
  "Card_fromJSON obj = Card_new (json_id obj) (json_deception obj) (json_magic obj) (json_attack obj)"

section \<open>The card universe (shared/core/card-generator.js)\<close>

text \<open>\<open>CardGenerator.generateAllCards\<close>: the two \<open>for\<close> loops run over 1..9; the loop
  state is the list built so far and the counter \<open>cardId\<close>. \<open>cardId++\<close> is evaluated
  before the constructor runs, and a constructor that throws is caught and skipped.\<close>

definition generateAllCards_step :: "int \<Rightarrow> int \<Rightarrow> card list \<times> int \<Rightarrow> card list \<times> int" where
  "generateAllCards_step d m st =
     (let a = 20 - d - m in
      if a \<ge> 1 \<and> a \<le> 9 then
        (case Card_new (snd st) d m a of
           Inr c \<Rightarrow> (fst st @ [c], snd st + 1)
         | Inl e \<Rightarrow> (fst st, snd st + 1))
      else st)"

definition generateAllCards :: "card list" where
  "generateAllCards =
     fst (fold (\<lambda>d st. fold (\<lambda>m st'. generateAllCards_step d m st') [1..9] st) [1..9] ([], 0))"

text \<open>\<open>getTotalCardCount\<close>: the same loops, counting.\<close>

definition getTotalCardCount :: int where
  "getTotalCardCount =
     fold (\<lambda>d n. fold (\<lambda>m n'. let a = 20 - d - m in if a \<ge> 1 \<and> a \<le> 9 then n' + 1 else n')
       [1..9] n) [1..9] 0"

text \<open>The invariant of a card: the sum and the three ranges.\<close>

definition card_invariant :: "card \<Rightarrow> bool" where
  "card_invariant c =
     (deception c + magic c + attack c = PROPERTY_SUM
      \<and> MIN_PROPERTY_VALUE \<le> deception c \<and> deception c \<le> MAX_PROPERTY_VALUE
      \<and> MIN_PROPERTY_VALUE \<le> magic c \<and> magic c \<le> MAX_PROPERTY_VALUE
      \<and> MIN_PROPERTY_VALUE \<le> attack c \<and> attack c \<le> MAX_PROPERTY_VALUE)"

section \<open>Sequencing of calls that may throw\<close>

text \<open>\<open>bindE m f\<close>: run \<open>m\<close>; a throw ends the computation, a result is passed on.\<close>

definition bindE :: "error + 'a \<Rightarrow> ('a \<Rightarrow> error + 'b) \<Rightarrow> error + 'b" where
  "bindE m f = (case m of Inl e \<Rightarrow> Inl e | Inr x \<Rightarrow> f x)"

section \<open>The round state machine (shared/game-engine/round-manager.js)\<close>

datatype winner = player1 | player2 | tie

record round_result =
  rr_round :: int
  rr_player1Property :: string
  rr_player1Value :: int
  rr_player1Points :: int
  rr_player2Property :: string
  rr_player2Value :: int
  rr_player2Points :: int
  rr_winner :: winner

record RoundManager =
  currentRound :: int
  maxRounds :: int
  roundResults :: "round_result list"
  usedPlayer1Properties :: "string list"
  usedPlayer2Properties :: "string list"
  currentPlayer1Property :: "string option"
  currentPlayer2Property :: "string option"
  roundPhase :: phase
  autoPlayEnabled :: bool

definition RoundManager_new :: RoundManager where
  "RoundManager_new =
     \<lparr>currentRound = 1, maxRounds = ROUNDS_PER_CARD, roundResults = [],
      usedPlayer1Properties = [], usedPlayer2Properties = [],
      currentPlayer1Property = None, currentPlayer2Property = None,
      roundPhase = PROPERTY_SELECTION, autoPlayEnabled = AUTO_PLAY_FINAL_ROUND\<rparr>"

definition RoundManager_reset :: "RoundManager \<Rightarrow> RoundManager" where
  "RoundManager_reset rm =
     rm\<lparr>currentRound := 1, roundResults := [],
        usedPlayer1Properties := [], usedPlayer2Properties := [],
        currentPlayer1Property := None, currentPlayer2Property := None,
        roundPhase := PROPERTY_SELECTION\<rparr>"

definition isFinalRound :: "RoundManager \<Rightarrow> bool" where
  "isFinalRound rm = (currentRound rm = maxRounds rm)"

definition areAllRoundsComplete :: "RoundManager \<Rightarrow> bool" where
  "areAllRoundsComplete rm = (currentRound rm > maxRounds rm)"

text \<open>\<open>playerNumber === 1 ? this.usedPlayer1Properties : this.usedPlayer2Properties\<close>.\<close>

definition usedProperties :: "RoundManager \<Rightarrow> int \<Rightarrow> string list" where
  "usedProperties rm playerNumber =
     (if playerNumber = 1 then usedPlayer1Properties rm else usedPlayer2Properties rm)"

definition getAvailableProperties :: "RoundManager \<Rightarrow> int \<Rightarrow> string list" where
  "getAvailableProperties rm playerNumber =
     filter (\<lambda>prop. prop \<notin> set (usedProperties rm playerNumber)) getAllProperties"

definition isPropertyAvailable :: "RoundManager \<Rightarrow> int \<Rightarrow> string \<Rightarrow> bool" where
  "isPropertyAvailable rm playerNumber property =
     (property \<notin> set (usedProperties rm playerNumber))"

text \<open>\<open>RoundManager.selectProperty\<close>. The result pairs what the call returns or throws
  with the manager as the call leaves it, so that the state after a throw can be stated.\<close>

definition RoundManager_selectProperty ::
  "RoundManager \<Rightarrow> int \<Rightarrow> string \<Rightarrow> (error + bool) \<times> RoundManager" where
  "RoundManager_selectProperty rm playerNumber property =
     (if \<not> GameConfig_isValidProperty property then (Inl (InvalidProperty property), rm)
      else if \<not> isPropertyAvailable rm playerNumber property
        then (Inl (PropertyNotAvailable property playerNumber), rm)
      else if playerNumber = 1 then
        (Inr True,
         rm\<lparr>currentPlayer1Property := Some property,
            usedPlayer1Properties := usedPlayer1Properties rm @ [property]\<rparr>)
      else if playerNumber = 2 then
        (Inr True,
         rm\<lparr>currentPlayer2Property := Some property,
            usedPlayer2Properties := usedPlayer2Properties rm @ [property]\<rparr>)
      else (Inl (InvalidPlayerNumber playerNumber), rm))"

definition isRoundReadyForCalculation :: "RoundManager \<Rightarrow> bool" where
  "isRoundReadyForCalculation rm =
     (currentPlayer1Property rm \<noteq> None \<and> currentPlayer2Property rm \<noteq> None)"

definition determineRoundWinner :: "int \<Rightarrow> int \<Rightarrow> winner" where
  "determineRoundWinner player1Points player2Points =
     (if player1Points > player2Points then player1
      else if player2Points > player1Points then player2
      else tie)"

text \<open>Reading a property of a card that may be \<open>undefined\<close> (an array read at an index
  that is \<open>null\<close> or out of range): the method call on \<open>undefined\<close> is a TypeError.\<close>

definition getProperty_of :: "card option \<Rightarrow> string \<Rightarrow> error + int" where
  "getProperty_of c property =
     (case c of None \<Rightarrow> Inl TypeError | Some c' \<Rightarrow> Card_getProperty c' property)"

text \<open>\<open>RoundManager.calculateRoundResult\<close>: the round result and the manager with the
  result pushed and the phase set. A throw happens before any assignment.\<close>

definition calculateRoundResult ::
  "RoundManager \<Rightarrow> card option \<Rightarrow> card option \<Rightarrow> error + (round_result \<times> RoundManager)" where
  "calculateRoundResult rm player1Card player2Card =
     (case (currentPlayer1Property rm, currentPlayer2Property rm) of
        (Some p1, Some p2) \<Rightarrow>
          bindE (getProperty_of player1Card p1) (\<lambda>player1Value.
          bindE (getProperty_of player2Card p2) (\<lambda>player2Value.
          bindE (calculateRoundScore p1 player1Value p2 player2Value) (\<lambda>pts.
            let roundResult =
              \<lparr>rr_round = currentRound rm,
               rr_player1Property = p1, rr_player1Value = player1Value,
               rr_player1Points = fst pts,
               rr_player2Property = p2, rr_player2Value = player2Value,
               rr_player2Points = snd pts,
               rr_winner = determineRoundWinner (fst pts) (snd pts)\<rparr>
            in Inr (roundResult,
                    rm\<lparr>roundResults := roundResults rm @ [roundResult],
                       roundPhase := ROUND_RESULT\<rparr>))))
      | _ \<Rightarrow> Inl RoundNotReady)"

definition RoundManager_advanceToNextRound :: "RoundManager \<Rightarrow> bool \<times> RoundManager" where
  "RoundManager_advanceToNextRound rm =
     (if areAllRoundsComplete rm then (False, rm)
      else (True,
            rm\<lparr>currentRound := currentRound rm + 1,
               currentPlayer1Property := None, currentPlayer2Property := None,
               roundPhase := PROPERTY_SELECTION\<rparr>))"

definition shouldAutoPlayRound :: "RoundManager \<Rightarrow> bool" where
  "shouldAutoPlayRound rm =
     (autoPlayEnabled rm \<and> isFinalRound rm
      \<and> length (getAvailableProperties rm 1) = 1
      \<and> length (getAvailableProperties rm 2) = 1)"

text \<open>\<open>RoundManager.autoPlayRound\<close>: each side's single remaining property is selected,
  then the round is computed.\<close>

definition autoPlayRound ::
  "RoundManager \<Rightarrow> card option \<Rightarrow> card option \<Rightarrow> error + (round_result \<times> RoundManager)" where
  "autoPlayRound rm player1Card player2Card =
     (if \<not> shouldAutoPlayRound rm then Inl CannotAutoPlay
      else
        let player1FinalProperty = hd (getAvailableProperties rm 1);
            player2FinalProperty = hd (getAvailableProperties rm 2)
        in
        (case RoundManager_selectProperty rm 1 player1FinalProperty of
           (Inl e, rm1) \<Rightarrow> Inl e
         | (Inr ok1, rm1) \<Rightarrow>
             (case RoundManager_selectProperty rm1 2 player2FinalProperty of
                (Inl e, rm2) \<Rightarrow> Inl e
              | (Inr ok2, rm2) \<Rightarrow>
                  calculateRoundResult (rm2\<lparr>roundPhase := AUTO_ROUND\<rparr>) player1Card player2Card)))"

text \<open>\<open>RoundManager.validateState\<close>: the four checks in the order of the source.\<close>

definition RoundManager_validateState :: "RoundManager \<Rightarrow> bool" where
  "RoundManager_validateState rm =
     (if currentRound rm < 1 \<or> currentRound rm > maxRounds rm + 1 then False
      else if int (length (usedPlayer1Properties rm)) > maxRounds rm
            \<or> int (length (usedPlayer2Properties rm)) > maxRounds rm then False
      else if \<not> (distinct (usedPlayer1Properties rm) \<and> distinct (usedPlayer2Properties rm))
        then False
      else if int (length (roundResults rm)) \<noteq> min (currentRound rm - 1) (maxRounds rm)
        then False
      else True)"

text \<open>\<open>exportState\<close> returns an object with the manager's nine fields, so the exported
  tree has the manager's record type. \<open>importState\<close> reads each field with its default
  (\<open>x || d\<close> takes \<open>d\<close> for \<open>0\<close>, the empty string and \<open>null\<close>) and then validates.\<close>

definition RoundManager_exportState :: "RoundManager \<Rightarrow> RoundManager" where
  "RoundManager_exportState rm =
     \<lparr>currentRound = currentRound rm, maxRounds = maxRounds rm,
      roundResults = roundResults rm,
      usedPlayer1Properties = usedPlayer1Properties rm,
      usedPlayer2Properties = usedPlayer2Properties rm,
      currentPlayer1Property = currentPlayer1Property rm,
      currentPlayer2Property = currentPlayer2Property rm,
      roundPhase = roundPhase rm, autoPlayEnabled = autoPlayEnabled rm\<rparr>"

definition or_null :: "string option \<Rightarrow> string option" where
  "or_null x = (case x of None \<Rightarrow> None | Some s \<Rightarrow> if s = [] then None else Some s)"

definition or_default :: "int \<Rightarrow> int \<Rightarrow> int" where
  "or_default x d = (if x = 0 then d else x)"

definition RoundManager_importState :: "RoundManager \<Rightarrow> error + RoundManager" where
  "RoundManager_importState state =
     (let rm =
        \<lparr>currentRound = or_default (currentRound state) 1,
         maxRounds = or_default (maxRounds state) ROUNDS_PER_CARD,
         roundResults = roundResults state,
         usedPlayer1Properties = usedPlayer1Properties state,
         usedPlayer2Properties = usedPlayer2Properties state,
         currentPlayer1Property = or_null (currentPlayer1Property state),
         currentPlayer2Property = or_null (currentPlayer2Property state),
         roundPhase = roundPhase state, autoPlayEnabled = autoPlayEnabled state\<rparr>
      in if \<not> RoundManager_validateState rm then Inl InvalidRoundManagerState else Inr rm)"

section \<open>The score aggregator (shared/game-engine/score-manager.js)\<close>

record player_stats =
  totalPoints :: int
  roundsWon :: int
  roundsLost :: int
  roundsTied :: int
  cardsWon :: int
  cardsLost :: int
  cardsTied :: int
  highestSingleRound :: int
  averagePerRound :: rat
  winStreak :: int
  currentStreak :: int
  comebacks :: int

record score_change =
  sc_player :: int
  sc_points :: int
  sc_source :: string
  sc_previousScore :: int
  sc_newScore :: int

record card_score =
  cs_cardGame :: int
  cs_player1Score :: int
  cs_player2Score :: int
  cs_winner :: winner
  cs_rounds :: "round_result list"

text \<open>\<open>bonusPoints\<close> and \<open>statistics\<close> are objects with the two keys \<open>player1\<close> and
  \<open>player2\<close>; each key is a field here. \<open>averagePerRound\<close> is a quotient of two
  integers, kept exact.\<close>

record ScoreManager =
  player1Score :: int
  player2Score :: int
  scoreHistory :: "score_change list"
  cardScores :: "card_score list"
  bonusPoints1 :: int
  bonusPoints2 :: int
  statistics1 :: player_stats
  statistics2 :: player_stats

definition initPlayerStats :: player_stats where
  "initPlayerStats =
     \<lparr>totalPoints = 0, roundsWon = 0, roundsLost = 0, roundsTied = 0,
      cardsWon = 0, cardsLost = 0, cardsTied = 0, highestSingleRound = 0,
      averagePerRound = 0, winStreak = 0, currentStreak = 0, comebacks = 0\<rparr>"

definition ScoreManager_new :: ScoreManager where
  "ScoreManager_new =
     \<lparr>player1Score = 0, player2Score = 0, scoreHistory = [], cardScores = [],
      bonusPoints1 = 0, bonusPoints2 = 0,
      statistics1 = initPlayerStats, statistics2 = initPlayerStats\<rparr>"

definition getScore :: "ScoreManager \<Rightarrow> int \<Rightarrow> int" where
  "getScore sm playerNumber = (if playerNumber = 1 then player1Score sm else player2Score sm)"

definition getScores :: "ScoreManager \<Rightarrow> int \<times> int" where
  "getScores sm = (player1Score sm, player2Score sm)"

definition recordScoreChange :: "ScoreManager \<Rightarrow> int \<Rightarrow> int \<Rightarrow> string \<Rightarrow> int \<Rightarrow> ScoreManager" where
  "recordScoreChange sm playerNumber points source previousScore =
     sm\<lparr>scoreHistory := scoreHistory sm @
        [\<lparr>sc_player = playerNumber, sc_points = points, sc_source = source,
          sc_previousScore = previousScore, sc_newScore = getScore sm playerNumber\<rparr>]\<rparr>"

text \<open>\<open>addPoints\<close>; \<open>updatePlayerStatistics\<close>, called last, has an empty body.\<close>

definition addPoints :: "ScoreManager \<Rightarrow> int \<Rightarrow> int \<Rightarrow> string \<Rightarrow> error + ScoreManager" where
  "addPoints sm playerNumber points source =
     (if points < 0 then Inl NegativePoints
      else
        let previousScore = getScore sm playerNumber in
        if playerNumber = 1 then
          Inr (recordScoreChange
                 (sm\<lparr>player1Score := player1Score sm + points,
                     statistics1 := (statistics1 sm)
                       \<lparr>totalPoints := totalPoints (statistics1 sm) + points\<rparr>\<rparr>)
                 playerNumber points source previousScore)
        else if playerNumber = 2 then
          Inr (recordScoreChange
                 (sm\<lparr>player2Score := player2Score sm + points,
                     statistics2 := (statistics2 sm)
                       \<lparr>totalPoints := totalPoints (statistics2 sm) + points\<rparr>\<rparr>)
                 playerNumber points source previousScore)
        else Inl (InvalidPlayerNumber playerNumber))"

text \<open>\<open>addBonusPoints\<close>: nothing happens unless the bonus is positive.\<close>

definition addBonusPoints :: "ScoreManager \<Rightarrow> int \<Rightarrow> int \<Rightarrow> string \<Rightarrow> error + ScoreManager" where
  "addBonusPoints sm playerNumber points bonusType =
     (if points > 0 then
        bindE (addPoints sm playerNumber points (''bonus_'' @ bonusType)) (\<lambda>sm'.
          Inr (if playerNumber = 1 then sm'\<lparr>bonusPoints1 := bonusPoints1 sm' + points\<rparr>
               else sm'\<lparr>bonusPoints2 := bonusPoints2 sm' + points\<rparr>))
      else Inr sm)"

definition updateWinStreak :: "ScoreManager \<Rightarrow> int \<Rightarrow> ScoreManager" where
  "updateWinStreak sm winnerNumber =
     (let w = (if winnerNumber = 1 then statistics1 sm else statistics2 sm);
          l = (if winnerNumber = 1 then statistics2 sm else statistics1 sm);
          w1 = w\<lparr>currentStreak := currentStreak w + 1\<rparr>;
          w2 = w1\<lparr>winStreak := max (winStreak w1) (currentStreak w1)\<rparr>;
          l1 = l\<lparr>currentStreak := 0\<rparr>
      in if winnerNumber = 1 then sm\<lparr>statistics1 := w2, statistics2 := l1\<rparr>
         else sm\<lparr>statistics1 := l1, statistics2 := w2\<rparr>)"

definition resetWinStreaks :: "ScoreManager \<Rightarrow> ScoreManager" where
  "resetWinStreaks sm =
     sm\<lparr>statistics1 := (statistics1 sm)\<lparr>currentStreak := 0\<rparr>,
        statistics2 := (statistics2 sm)\<lparr>currentStreak := 0\<rparr>\<rparr>"

definition updateAverage :: "player_stats \<Rightarrow> player_stats" where
  "updateAverage st =
     (let totalRounds = roundsWon st + roundsLost st + roundsTied st in
      if totalRounds > 0
        then st\<lparr>averagePerRound := rat_of_int (totalPoints st) / rat_of_int totalRounds\<rparr>
      else st)"

definition updateAverages :: "ScoreManager \<Rightarrow> ScoreManager" where
  "updateAverages sm =
     sm\<lparr>statistics1 := updateAverage (statistics1 sm),
        statistics2 := updateAverage (statistics2 sm)\<rparr>"

definition updateRoundStatistics :: "ScoreManager \<Rightarrow> round_result \<Rightarrow> ScoreManager" where
  "updateRoundStatistics sm roundResult =
     (let sm1 =
        (case rr_winner roundResult of
           player1 \<Rightarrow>
             updateWinStreak
               (sm\<lparr>statistics1 := (statistics1 sm)\<lparr>roundsWon := roundsWon (statistics1 sm) + 1\<rparr>,
                   statistics2 := (statistics2 sm)\<lparr>roundsLost := roundsLost (statistics2 sm) + 1\<rparr>\<rparr>) 1
         | player2 \<Rightarrow>
             updateWinStreak
               (sm\<lparr>statistics2 := (statistics2 sm)\<lparr>roundsWon := roundsWon (statistics2 sm) + 1\<rparr>,
                   statistics1 := (statistics1 sm)\<lparr>roundsLost := roundsLost (statistics1 sm) + 1\<rparr>\<rparr>) 2
         | tie \<Rightarrow>
             resetWinStreaks
               (sm\<lparr>statistics1 := (statistics1 sm)\<lparr>roundsTied := roundsTied (statistics1 sm) + 1\<rparr>,
                   statistics2 := (statistics2 sm)\<lparr>roundsTied := roundsTied (statistics2 sm) + 1\<rparr>\<rparr>));
          sm2 =
            (if rr_player1Points roundResult > highestSingleRound (statistics1 sm1)
             then sm1\<lparr>statistics1 := (statistics1 sm1)
                        \<lparr>highestSingleRound := rr_player1Points roundResult\<rparr>\<rparr>
             else sm1);
          sm3 =
            (if rr_player2Points roundResult > highestSingleRound (statistics2 sm2)
             then sm2\<lparr>statistics2 := (statistics2 sm2)
                        \<lparr>highestSingleRound := rr_player2Points roundResult\<rparr>\<rparr>
             else sm2)
      in updateAverages sm3)"

text \<open>\<open>checkForBonuses\<close>: a perfect round and a streak of three each ask for
  \<open>WIN_BONUS\<close> points.\<close>

definition checkForBonuses :: "ScoreManager \<Rightarrow> round_result \<Rightarrow> error + ScoreManager" where
  "checkForBonuses sm roundResult =
     bindE (if rr_player1Points roundResult = MAX_SINGLE_ROUND_SCORE
            then addBonusPoints sm 1 WIN_BONUS ''perfect_round'' else Inr sm) (\<lambda>s1.
     bindE (if rr_player2Points roundResult = MAX_SINGLE_ROUND_SCORE
            then addBonusPoints s1 2 WIN_BONUS ''perfect_round'' else Inr s1) (\<lambda>s2.
     bindE (if currentStreak (statistics1 s2) \<ge> 3
            then addBonusPoints s2 1 WIN_BONUS ''win_streak'' else Inr s2) (\<lambda>s3.
     if currentStreak (statistics2 s3) \<ge> 3
       then addBonusPoints s3 2 WIN_BONUS ''win_streak'' else Inr s3)))"

text \<open>\<open>processRoundResult\<close>; its parameters \<open>cardGame\<close> and \<open>round\<close> are passed on and
  never read.\<close>

definition processRoundResult :: "ScoreManager \<Rightarrow> round_result \<Rightarrow> error + ScoreManager" where
  "processRoundResult sm roundResult =
     bindE (if rr_player1Points roundResult > 0
            then addPoints sm 1 (rr_player1Points roundResult) ''round'' else Inr sm) (\<lambda>s1.
     bindE (if rr_player2Points roundResult > 0
            then addPoints s1 2 (rr_player2Points roundResult) ''round'' else Inr s1) (\<lambda>s2.
     checkForBonuses (updateRoundStatistics s2 roundResult) roundResult))"

definition checkForComebacks :: "ScoreManager \<Rightarrow> card_score \<Rightarrow> error + ScoreManager" where
  "checkForComebacks sm cardResult =
     (if cs_winner cardResult = player1 \<and> player1Score sm < player2Score sm then
        addBonusPoints
          (sm\<lparr>statistics1 := (statistics1 sm)\<lparr>comebacks := comebacks (statistics1 sm) + 1\<rparr>\<rparr>)
          1 COMEBACK_BONUS ''comeback''
      else if cs_winner cardResult = player2 \<and> player2Score sm < player1Score sm then
        addBonusPoints
          (sm\<lparr>statistics2 := (statistics2 sm)\<lparr>comebacks := comebacks (statistics2 sm) + 1\<rparr>\<rparr>)
          2 COMEBACK_BONUS ''comeback''
      else Inr sm)"

text \<open>\<open>ScoreManager.completeCardGame\<close>.\<close>

definition ScoreManager_completeCardGame ::
  "ScoreManager \<Rightarrow> round_result list \<Rightarrow> int \<Rightarrow> error + ScoreManager" where
  "ScoreManager_completeCardGame sm rrs cardGame =
     (let player1CardScore = sum_list (map rr_player1Points rrs);
          player2CardScore = sum_list (map rr_player2Points rrs);
          cardResult =
            \<lparr>cs_cardGame = cardGame,
             cs_player1Score = player1CardScore, cs_player2Score = player2CardScore,
             cs_winner = (if player1CardScore > player2CardScore then player1
                          else if player2CardScore > player1CardScore then player2 else tie),
             cs_rounds = rrs\<rparr>;
          sm1 = sm\<lparr>cardScores := cardScores sm @ [cardResult]\<rparr>;
          sm2 =
            (case cs_winner cardResult of
               player1 \<Rightarrow>
                 sm1\<lparr>statistics1 := (statistics1 sm1)\<lparr>cardsWon := cardsWon (statistics1 sm1) + 1\<rparr>,
                     statistics2 := (statistics2 sm1)\<lparr>cardsLost := cardsLost (statistics2 sm1) + 1\<rparr>\<rparr>
             | player2 \<Rightarrow>
                 sm1\<lparr>statistics2 := (statistics2 sm1)\<lparr>cardsWon := cardsWon (statistics2 sm1) + 1\<rparr>,
                     statistics1 := (statistics1 sm1)\<lparr>cardsLost := cardsLost (statistics1 sm1) + 1\<rparr>\<rparr>
             | tie \<Rightarrow>
                 sm1\<lparr>statistics1 := (statistics1 sm1)\<lparr>cardsTied := cardsTied (statistics1 sm1) + 1\<rparr>,
                     statistics2 := (statistics2 sm1)\<lparr>cardsTied := cardsTied (statistics2 sm1) + 1\<rparr>\<rparr>)
      in checkForComebacks sm2 cardResult)"

definition getCurrentWinner :: "ScoreManager \<Rightarrow> winner" where
  "getCurrentWinner sm =
     (if player1Score sm > player2Score sm then player1
      else if player2Score sm > player1Score sm then player2
      else tie)"

record score_breakdown =
  sb_current :: "int \<times> int"
  sb_bonus :: "int \<times> int"
  sb_difference :: int
  sb_winner :: winner
  sb_cardScores :: "card_score list"
  sb_statistics1 :: player_stats
  sb_statistics2 :: player_stats

definition getScoreBreakdown :: "ScoreManager \<Rightarrow> score_breakdown" where
  "getScoreBreakdown sm =
     \<lparr>sb_current = getScores sm, sb_bonus = (bonusPoints1 sm, bonusPoints2 sm),
      sb_difference = player1Score sm - player2Score sm,
      sb_winner = getCurrentWinner sm, sb_cardScores = cardScores sm,
      sb_statistics1 = statistics1 sm, sb_statistics2 = statistics2 sm\<rparr>"

definition ScoreManager_validateState :: "ScoreManager \<Rightarrow> bool" where
  "ScoreManager_validateState sm =
     (if player1Score sm < 0 \<or> player2Score sm < 0 then False
      else if \<not> (totalPoints (statistics1 sm) = player1Score sm
                  \<and> totalPoints (statistics2 sm) = player2Score sm) then False
      else if sum_list (map cs_player1Score (cardScores sm)) > player1Score sm
            \<or> sum_list (map cs_player2Score (cardScores sm)) > player2Score sm then False
      else True)"

text \<open>The exported tree has the six fields of the manager.\<close>

definition ScoreManager_exportState :: "ScoreManager \<Rightarrow> ScoreManager" where
  "ScoreManager_exportState sm =
     \<lparr>player1Score = player1Score sm, player2Score = player2Score sm,
      scoreHistory = scoreHistory sm, cardScores = cardScores sm,
      bonusPoints1 = bonusPoints1 sm, bonusPoints2 = bonusPoints2 sm,
      statistics1 = statistics1 sm, statistics2 = statistics2 sm\<rparr>"

definition ScoreManager_importState :: "ScoreManager \<Rightarrow> error + ScoreManager" where
  "ScoreManager_importState state =
     (let sm =
        \<lparr>player1Score = or_default (player1Score state) 0,
         player2Score = or_default (player2Score state) 0,
         scoreHistory = scoreHistory state, cardScores = cardScores state,
         bonusPoints1 = bonusPoints1 state, bonusPoints2 = bonusPoints2 state,
         statistics1 = statistics1 state, statistics2 = statistics2 state\<rparr>
      in if \<not> ScoreManager_validateState sm then Inl InvalidScoreManagerState else Inr sm)"

section \<open>The match coordinator (shared/game-engine/match-manager.js)\<close>

record card_game_result =
  cg_cardGame :: int
  cg_player1Card :: "int option"
  cg_player2Card :: "int option"
  cg_rounds :: "round_result list"
  cg_scores :: "int \<times> int"
  cg_winner :: winner

text \<open>The match result. Its \<open>cardResults\<close> is the array \<open>cardGameResults\<close> itself, not
  a copy: \<open>MatchManager_completeCardGame\<close> keeps the two equal. The settings of the
  constructor that no method reads (\<open>autoProgressCards\<close>, \<open>allowSpectators\<close>,
  \<open>timeouts\<close>) are not fields of the model.\<close>

record match_result =
  mr_winner :: winner
  mr_finalScores :: "int \<times> int"
  mr_cardResults :: "card_game_result list"
  mr_statistics :: score_breakdown

record MatchManager =
  gameMode :: string
  player1Cards :: "card list"
  player2Cards :: "card list"
  currentCardGame :: int
  maxCardGames :: int
  matchPhase :: phase
  player1SelectedCard :: "int option"
  player2SelectedCard :: "int option"
  roundManager :: RoundManager
  scoreManager :: ScoreManager
  cardGameResults :: "card_game_result list"
  matchResult :: "match_result option"

text \<open>\<open>validatePlayerCards\<close>: three cards each, and no identifier on both sides. Every
  element of the model's lists is a \<open>Card\<close>.\<close>

definition validatePlayerCards :: "card list \<Rightarrow> card list \<Rightarrow> bool" where
  "validatePlayerCards p1 p2 =
     (if \<not> (int (length p1) = CARDS_PER_PLAYER \<and> int (length p2) = CARDS_PER_PLAYER) then False
      else
        let player1Ids = map card_id p1; player2Ids = map card_id p2;
            duplicates = filter (\<lambda>i. i \<in> set player2Ids) player1Ids
        in length duplicates = 0)"

definition MatchManager_new :: "card list \<Rightarrow> card list \<Rightarrow> string \<Rightarrow> error + MatchManager" where
  "MatchManager_new p1 p2 mode =
     (if \<not> validatePlayerCards p1 p2 then Inl InvalidPlayerCards
      else Inr
        \<lparr>gameMode = mode, player1Cards = p1, player2Cards = p2,
         currentCardGame = 1, maxCardGames = TOTAL_CARD_GAMES,
         matchPhase = CARD_SELECTION,
         player1SelectedCard = None, player2SelectedCard = None,
         roundManager = RoundManager_new, scoreManager = ScoreManager_new,
         cardGameResults = [], matchResult = None\<rparr>)"

text \<open>An array read \<open>cards[index]\<close>: \<open>undefined\<close> when the index is \<open>null\<close> or outside
  the array.\<close>

definition card_at :: "card list \<Rightarrow> int option \<Rightarrow> card option" where
  "card_at cards i =
     (case i of
        None \<Rightarrow> None
      | Some k \<Rightarrow> if 0 \<le> k \<and> k < int (length cards) then Some (cards ! nat k) else None)"

text \<open>\<open>getPlayerCardInfo\<close>: per card its index, identifier and the flags \<open>available\<close>,
  \<open>used\<close>, \<open>current\<close> (values and rarity are display data).\<close>

record card_info =
  ci_index :: int
  ci_id :: int
  ci_available :: bool
  ci_used :: bool
  ci_current :: bool

definition getPlayerCardInfo :: "MatchManager \<Rightarrow> int \<Rightarrow> card_info list" where
  "getPlayerCardInfo m playerNumber =
     (let cards = (if playerNumber = 1 then player1Cards m else player2Cards m) in
      map (\<lambda>(c, index).
             \<lparr>ci_index = index, ci_id = card_id c,
              ci_available = (index \<ge> currentCardGame m - 1),
              ci_used = (index < currentCardGame m - 1),
              ci_current = (if playerNumber = 1 then Some index = player1SelectedCard m
                            else Some index = player2SelectedCard m)\<rparr>)
          (zip cards (map int [0..<length cards])))"

definition canProceedToPropertySelection :: "MatchManager \<Rightarrow> bool" where
  "canProceedToPropertySelection m =
     (player1SelectedCard m \<noteq> None \<and> player2SelectedCard m \<noteq> None)"

definition startPropertySelection :: "MatchManager \<Rightarrow> MatchManager" where
  "startPropertySelection m =
     m\<lparr>matchPhase := PROPERTY_SELECTION, roundManager := RoundManager_reset (roundManager m)\<rparr>"

text \<open>\<open>MatchManager.selectCard\<close>: the phase, the index range, then the comparison of the
  index with \<open>currentCardGame - 1\<close>.\<close>

definition selectCard :: "MatchManager \<Rightarrow> int \<Rightarrow> int \<Rightarrow> error + MatchManager" where
  "selectCard m playerNumber cardIndex =
     (if matchPhase m \<noteq> CARD_SELECTION then Inl (CannotSelectCard (matchPhase m))
      else
        let cards = (if playerNumber = 1 then player1Cards m else player2Cards m) in
        if cardIndex < 0 \<or> cardIndex \<ge> int (length cards) then Inl (InvalidCardIndex cardIndex)
        else if cardIndex < currentCardGame m - 1 then Inl (CardAlreadyUsed cardIndex)
        else
          let m1 = (if playerNumber = 1 then m\<lparr>player1SelectedCard := Some cardIndex\<rparr>
                    else m\<lparr>player2SelectedCard := Some cardIndex\<rparr>)
          in Inr (if canProceedToPropertySelection m1 then startPropertySelection m1 else m1))"

text \<open>\<open>completeMatch\<close> freezes the result.\<close>

definition completeMatch :: "MatchManager \<Rightarrow> MatchManager" where
  "completeMatch m =
     m\<lparr>matchPhase := GAME_OVER,
       matchResult := Some
         \<lparr>mr_winner = getCurrentWinner (scoreManager m),
          mr_finalScores = getScores (scoreManager m),
          mr_cardResults = cardGameResults m,
          mr_statistics = getScoreBreakdown (scoreManager m)\<rparr>\<rparr>"

text \<open>\<open>MatchManager.completeCardGame\<close>: the card-game result is pushed, the phase set,
  and the match completed when this was the last card-game.\<close>

definition MatchManager_completeCardGame :: "MatchManager \<Rightarrow> error + MatchManager" where
  "MatchManager_completeCardGame m =
     (let rrs = roundResults (roundManager m) in
      bindE (ScoreManager_completeCardGame (scoreManager m) rrs (currentCardGame m)) (\<lambda>sm.
        let cardGameResult =
              \<lparr>cg_cardGame = currentCardGame m,
               cg_player1Card = player1SelectedCard m, cg_player2Card = player2SelectedCard m,
               cg_rounds = rrs, cg_scores = getScores sm, cg_winner = getCurrentWinner sm\<rparr>;
            results = cardGameResults m @ [cardGameResult];
            m1 = m\<lparr>scoreManager := sm, cardGameResults := results,
                   matchResult := map_option (\<lambda>r. r\<lparr>mr_cardResults := results\<rparr>) (matchResult m),
                   matchPhase := CARD_COMPLETE\<rparr>
        in Inr (if currentCardGame m1 \<ge> maxCardGames m1 then completeMatch m1 else m1)))"

text \<open>\<open>autoPlayFinalRound\<close>.\<close>

definition autoPlayFinalRound :: "MatchManager \<Rightarrow> error + MatchManager" where
  "autoPlayFinalRound m =
     bindE (autoPlayRound (roundManager m)
              (card_at (player1Cards m) (player1SelectedCard m))
              (card_at (player2Cards m) (player2SelectedCard m))) (\<lambda>(roundResult, rm).
     bindE (processRoundResult (scoreManager m) roundResult) (\<lambda>sm.
       MatchManager_completeCardGame (m\<lparr>roundManager := rm, scoreManager := sm\<rparr>)))"

text \<open>\<open>calculateRound\<close>: the round is computed and scored, the phase becomes
  \<open>ROUND_RESULT\<close>, and then the two checks of the source follow.\<close>

definition calculateRound :: "MatchManager \<Rightarrow> error + MatchManager" where
  "calculateRound m =
     bindE (calculateRoundResult (roundManager m)
              (card_at (player1Cards m) (player1SelectedCard m))
              (card_at (player2Cards m) (player2SelectedCard m))) (\<lambda>(roundResult, rm).
     bindE (processRoundResult (scoreManager m) roundResult) (\<lambda>sm.
       let m1 = m\<lparr>roundManager := rm, scoreManager := sm, matchPhase := ROUND_RESULT\<rparr> in
       if areAllRoundsComplete (roundManager m1) then MatchManager_completeCardGame m1
       else if shouldAutoPlayRound (roundManager m1) then autoPlayFinalRound m1
       else Inr m1))"

text \<open>\<open>MatchManager.selectProperty\<close>.\<close>

definition selectProperty :: "MatchManager \<Rightarrow> int \<Rightarrow> string \<Rightarrow> error + MatchManager" where
  "selectProperty m playerNumber property =
     (if matchPhase m \<noteq> PROPERTY_SELECTION then Inl (CannotSelectProperty (matchPhase m))
      else
        (case RoundManager_selectProperty (roundManager m) playerNumber property of
           (Inl e, rm) \<Rightarrow> Inl e
         | (Inr success, rm) \<Rightarrow>
             let m1 = m\<lparr>roundManager := rm\<rparr> in
             if success \<and> isRoundReadyForCalculation (roundManager m1) then calculateRound m1
             else Inr m1))"

definition advanceToNextRound :: "MatchManager \<Rightarrow> bool \<times> MatchManager" where
  "advanceToNextRound m =
     (if matchPhase m \<noteq> ROUND_RESULT then (False, m)
      else
        (case RoundManager_advanceToNextRound (roundManager m) of
           (advanced, rm) \<Rightarrow>
             (advanced,
              if advanced then m\<lparr>roundManager := rm, matchPhase := PROPERTY_SELECTION\<rparr>
              else m\<lparr>roundManager := rm\<rparr>)))"

definition advanceToNextCard :: "MatchManager \<Rightarrow> bool \<times> MatchManager" where
  "advanceToNextCard m =
     (if matchPhase m \<noteq> CARD_COMPLETE then (False, m)
      else if currentCardGame m \<ge> maxCardGames m then (False, completeMatch m)
      else (True,
            m\<lparr>currentCardGame := currentCardGame m + 1,
              player1SelectedCard := None, player2SelectedCard := None,
              matchPhase := CARD_SELECTION\<rparr>))"

definition isMatchComplete :: "MatchManager \<Rightarrow> bool" where
  "isMatchComplete m = (matchPhase m = GAME_OVER)"

text \<open>\<open>MatchManager.validateState\<close>.\<close>

definition selected_in_range :: "int option \<Rightarrow> card list \<Rightarrow> bool" where
  "selected_in_range i cards =
     (case i of None \<Rightarrow> True | Some k \<Rightarrow> 0 \<le> k \<and> k < int (length cards))"

definition MatchManager_validateState :: "MatchManager \<Rightarrow> bool" where
  "MatchManager_validateState m =
     (if currentCardGame m < 1 \<or> currentCardGame m > maxCardGames m + 1 then False
      else if \<not> selected_in_range (player1SelectedCard m) (player1Cards m) then False
      else if \<not> selected_in_range (player2SelectedCard m) (player2Cards m) then False
      else if \<not> (RoundManager_validateState (roundManager m)
                  \<and> ScoreManager_validateState (scoreManager m)) then False
      else True)"

text \<open>The exported tree: the cards by value (\<open>toJSON\<close>), the fields, and the two
  sub-managers' trees.\<close>

record match_tree =
  t_gameMode :: string
  t_player1Cards :: "card_json list"
  t_player2Cards :: "card_json list"
  t_currentCardGame :: int
  t_maxCardGames :: int
  t_matchPhase :: phase
  t_player1SelectedCard :: "int option"
  t_player2SelectedCard :: "int option"
  t_cardGameResults :: "card_game_result list"
  t_matchResult :: "match_result option"
  t_roundManager :: RoundManager
  t_scoreManager :: ScoreManager

definition exportState :: "MatchManager \<Rightarrow> match_tree" where
  "exportState m =
     \<lparr>t_gameMode = gameMode m,
      t_player1Cards = map Card_toJSON (player1Cards m),
      t_player2Cards = map Card_toJSON (player2Cards m),
      t_currentCardGame = currentCardGame m, t_maxCardGames = maxCardGames m,
      t_matchPhase = matchPhase m,
      t_player1SelectedCard = player1SelectedCard m,
      t_player2SelectedCard = player2SelectedCard m,
      t_cardGameResults = cardGameResults m, t_matchResult = matchResult m,
      t_roundManager = RoundManager_exportState (roundManager m),
      t_scoreManager = ScoreManager_exportState (scoreManager m)\<rparr>"

text \<open>\<open>map\<close> over \<open>Card.fromJSON\<close>: the first constructor that throws ends the call.\<close>

fun cards_fromJSON :: "card_json list \<Rightarrow> error + card list" where
  "cards_fromJSON [] = Inr []"
| "cards_fromJSON (j # js) =
     bindE (Card_fromJSON j) (\<lambda>c. bindE (cards_fromJSON js) (\<lambda>cs. Inr (c # cs)))"

text \<open>\<open>MatchManager.importState\<close>: every field of the receiving manager is overwritten,
  so the result does not depend on the receiver. The sub-managers validate their part,
  then the match validates the whole.\<close>

definition importState :: "match_tree \<Rightarrow> error + MatchManager" where
  "importState state =
     bindE (cards_fromJSON (t_player1Cards state)) (\<lambda>p1.
     bindE (cards_fromJSON (t_player2Cards state)) (\<lambda>p2.
     bindE (RoundManager_importState (t_roundManager state)) (\<lambda>rm.
     bindE (ScoreManager_importState (t_scoreManager state)) (\<lambda>sm.
       let m =
         \<lparr>gameMode = (if t_gameMode state = [] then ''demo'' else t_gameMode state),
          player1Cards = p1, player2Cards = p2,
          currentCardGame = or_default (t_currentCardGame state) 1,
          maxCardGames = or_default (t_maxCardGames state) TOTAL_CARD_GAMES,
          matchPhase = t_matchPhase state,
          player1SelectedCard = t_player1SelectedCard state,
          player2SelectedCard = t_player2SelectedCard state,
          roundManager = rm, scoreManager = sm,
          cardGameResults = t_cardGameResults state,
          matchResult = t_matchResult state\<rparr>
       in if \<not> MatchManager_validateState m then Inl InvalidMatchState else Inr m))))"

section \<open>Driving a match\<close>

text \<open>The calls a driver makes on a match, and a sequence of them run in order; a throw
  ends the run. The booleans returned by the two \<open>advance\<close> methods are dropped.\<close>

datatype call =
    SelectCard int int
  | SelectProperty int string
  | AdvanceToNextRound
  | AdvanceToNextCard
  | AutoPlayFinalRound
  | CompleteCardGame
  | CompleteMatch

fun perform :: "MatchManager \<Rightarrow> call \<Rightarrow> error + MatchManager" where
  "perform m (SelectCard playerNumber cardIndex) = selectCard m playerNumber cardIndex"
| "perform m (SelectProperty playerNumber property) = selectProperty m playerNumber property"
| "perform m AdvanceToNextRound = Inr (snd (advanceToNextRound m))"
| "perform m AdvanceToNextCard = Inr (snd (advanceToNextCard m))"
| "perform m AutoPlayFinalRound = autoPlayFinalRound m"
| "perform m CompleteCardGame = MatchManager_completeCardGame m"
| "perform m CompleteMatch = Inr (completeMatch m)"

fun run :: "error + MatchManager \<Rightarrow> call list \<Rightarrow> error + MatchManager" where
  "run r [] = r"
| "run r (c # cs) = run (bindE r (\<lambda>m. perform m c)) cs"

text \<open>The card indices a side has played in the card-games recorded so far.\<close>

definition playedCards :: "MatchManager \<Rightarrow> int \<Rightarrow> int list" where
  "playedCards m playerNumber =
     List.map_filter (\<lambda>r. if playerNumber = 1 then cg_player1Card r else cg_player2Card r)
       (cardGameResults m)"

section \<open>The AI decision engine (shared/ai/ai-strategy.js)\<close>

text \<open>
  Move evaluations are JavaScript numbers that need not be integral (an average, a
  bonus of \<open>0.5\<close>); they are modelled as exact rationals, the rounding of doubles is not.
  \<open>-Infinity\<close>, the initial best score, is \<^const>\<open>None\<close>.

  \<open>Math.random()\<close> is the one source of non-determinism. It is modelled by the sequence
  \<open>rnd\<close> of the values it returns, call after call, and a counter of the calls made so
  far: a function that calls \<open>Math.random()\<close> reads \<open>rnd k\<close> and returns \<open>k + 1\<close>.
\<close>

definition EASY :: string where "EASY = ''easy''"
definition NORMAL :: string where "NORMAL = ''normal''"
definition HARD :: string where "HARD = ''hard''"
definition EXPERT :: string where "EXPERT = ''expert''"
definition RANDOMNESS_FACTOR :: rat where "RANDOMNESS_FACTOR = 1 / 10"

definition calculateCardSynergy :: "card \<Rightarrow> string \<Rightarrow> error + rat" where
  "calculateCardSynergy c property =
     bindE (Card_getProperty c property) (\<lambda>myValue.
       if property = fst (getHighestProperty c) then Inr (1 / 2)
       else if property = fst (getLowestProperty c) \<and> myValue < 5 then Inr (- (3 / 10))
       else if isBalanced c then Inr (1 / 5)
       else Inr 0)"

definition calculatePositionalAdvantage :: "card \<Rightarrow> string \<Rightarrow> error + rat" where
  "calculatePositionalAdvantage c property =
     bindE (Card_getProperty c property) (\<lambda>myValue.
       if myValue \<ge> 8 then Inr (3 / 10)
       else if myValue \<ge> 6 then Inr (1 / 10)
       else if myValue \<le> 2 then Inr (- (1 / 5))
       else Inr 0)"

text \<open>\<open>applyDifficultyModifier\<close>: the \<open>switch\<close> on the difficulty, with its default.\<close>

definition applyDifficultyModifier ::
  "rat \<Rightarrow> string \<Rightarrow> card \<Rightarrow> string \<Rightarrow> (nat \<Rightarrow> rat) \<Rightarrow> nat \<Rightarrow> error + (rat \<times> nat)" where
  "applyDifficultyModifier baseScore difficulty c property rnd k =
     (if difficulty = EASY then Inr (baseScore + (rnd k - 1 / 2) * 2, k + 1)
      else if difficulty = NORMAL
        then Inr (baseScore + (rnd k - 1 / 2) * RANDOMNESS_FACTOR, k + 1)
      else if difficulty = HARD then
        bindE (calculateCardSynergy c property) (\<lambda>synergy. Inr (baseScore + synergy, k))
      else if difficulty = EXPERT then
        bindE (calculateCardSynergy c property) (\<lambda>synergy2.
        bindE (calculatePositionalAdvantage c property) (\<lambda>positional.
          Inr (baseScore + synergy2 + positional, k)))
      else Inr (baseScore, k))"

text \<open>One scenario of \<open>evaluateMove\<close>: an opponent card and an opponent property. The
  loop state is \<open>totalScore\<close> and \<open>scenarioCount\<close>.\<close>

definition evaluate_scenario ::
  "string \<Rightarrow> int \<Rightarrow> card \<Rightarrow> string \<Rightarrow> error + (int \<times> int) \<Rightarrow> error + (int \<times> int)" where
  "evaluate_scenario property myValue opponentCard oppProperty st =
     bindE st (\<lambda>(totalScore, scenarioCount).
     bindE (Card_getProperty opponentCard oppProperty) (\<lambda>oppValue.
     bindE (calculateRoundScore property myValue oppProperty oppValue) (\<lambda>(myScore, oppScore).
       Inr (totalScore + (myScore - oppScore), scenarioCount + 1))))"

definition evaluateMove ::
  "card \<Rightarrow> string \<Rightarrow> card list \<Rightarrow> string list \<Rightarrow> string \<Rightarrow> (nat \<Rightarrow> rat) \<Rightarrow> nat
     \<Rightarrow> error + (rat \<times> nat)" where
  "evaluateMove c property allPossibleOpponentCards usedOpponentProperties difficulty rnd k =
     bindE (Card_getProperty c property) (\<lambda>myValue.
       let opponentAvailableProps =
             filter (\<lambda>prop. prop \<notin> set usedOpponentProperties) getAllProperties
       in
       bindE (fold (\<lambda>opponentCard st.
                 fold (\<lambda>oppProperty st'.
                         evaluate_scenario property myValue opponentCard oppProperty st')
                   opponentAvailableProps st)
               allPossibleOpponentCards (Inr (0, 0))) (\<lambda>(totalScore, scenarioCount).
         let avgScore = (if scenarioCount > 0
                         then rat_of_int totalScore / rat_of_int scenarioCount else 0)
         in applyDifficultyModifier avgScore difficulty c property rnd k))"

text \<open>\<open>score > bestScore\<close>, where \<open>bestScore\<close> may still be \<open>-Infinity\<close>.\<close>

definition exceeds :: "rat \<Rightarrow> rat option \<Rightarrow> bool" where
  "exceeds score bestScore = (case bestScore of None \<Rightarrow> True | Some b \<Rightarrow> score > b)"

text \<open>The body of the \<open>forEach\<close> of \<open>chooseBestProperty\<close>; the loop state is
  \<open>bestProperty\<close>, \<open>bestScore\<close> and the number of \<open>Math.random()\<close> calls made.\<close>

definition chooseBestProperty_step ::
  "card \<Rightarrow> card list \<Rightarrow> string list \<Rightarrow> string \<Rightarrow> (nat \<Rightarrow> rat) \<Rightarrow> string
     \<Rightarrow> error + (string \<times> rat option \<times> nat) \<Rightarrow> error + (string \<times> rat option \<times> nat)" where
  "chooseBestProperty_step c opps usedOpp difficulty rnd property st =
     bindE st (\<lambda>(bestProperty, bestScore, k).
     bindE (evaluateMove c property opps usedOpp difficulty rnd k) (\<lambda>(score, k').
       Inr (if exceeds score bestScore then (property, Some score, k')
            else (bestProperty, bestScore, k'))))"

definition chooseBestProperty ::
  "card \<Rightarrow> string list \<Rightarrow> card list \<Rightarrow> string list \<Rightarrow> string \<Rightarrow> (nat \<Rightarrow> rat)
     \<Rightarrow> error + string" where
  "chooseBestProperty c availableProperties allPossibleOpponentCards usedOpponentProperties
       difficulty rnd =
     (if length availableProperties = 0 then Inl NoAvailableProperties
      else if length availableProperties = 1 then Inr (hd availableProperties)
      else
        bindE (fold (chooseBestProperty_step c allPossibleOpponentCards usedOpponentProperties
                       difficulty rnd)
                 availableProperties (Inr (hd availableProperties, None, 0)))
          (\<lambda>(bestProperty, bestScore, k). Inr bestProperty))"

section \<open>The console game's cards (console/game.js)\<close>

text \<open>The console \<open>Card\<close>: its constructor checks the sum only.\<close>

record console_card =
  rock :: int
  paper :: int
  scissors :: int

definition console_Card_new :: "int \<Rightarrow> int \<Rightarrow> int \<Rightarrow> error + console_card" where
  "console_Card_new r p s =
     (if r + p + s \<noteq> 20 then Inl (CardSumError (r + p + s))
      else Inr \<lparr>rock = r, paper = p, scissors = s\<rparr>)"

text \<open>\<open>CardGenerator.generateAllPossibleCards\<close> of the console: \<open>rock\<close> runs over 2..18,
  \<open>paper\<close> over 1..9. A constructor that throws is not caught here.\<close>

definition generateAllPossibleCards_step ::
  "int \<Rightarrow> int \<Rightarrow> error + console_card list \<Rightarrow> error + console_card list" where
  "generateAllPossibleCards_step r p st =
     (case st of
        Inl e \<Rightarrow> Inl e
      | Inr cards \<Rightarrow>
          (let s = 20 - r - p in
           if s \<ge> 1 \<and> s \<le> 9 then
             (case console_Card_new r p s of
                Inl e \<Rightarrow> Inl e
              | Inr c \<Rightarrow> Inr (cards @ [c]))
           else Inr cards))"

definition generateAllPossibleCards :: "error + console_card list" where
  "generateAllPossibleCards =
     fold (\<lambda>r st. fold (\<lambda>p st'. generateAllPossibleCards_step r p st') [1..9] st) [2..18] (Inr [])"

text \<open>The console's own limits, console/config.js.\<close>

definition console_PROPERTY_MIN_VALUE :: int where "console_PROPERTY_MIN_VALUE = 1"
definition console_PROPERTY_MAX_VALUE :: int where "console_PROPERTY_MAX_VALUE = 9"

section \<open>The console game's scoring (console/config.js, console/game.js)\<close>

text \<open>The console version names its properties \<open>r\<close>, \<open>p\<close>, \<open>s\<close>.\<close>

definition console_PROPERTIES :: "(string \<times> string) list" where
  "console_PROPERTIES = [(''ROCK'', ''r''), (''PAPER'', ''p''), (''SCISSORS'', ''s'')]"

definition console_WINNING_RULES :: "(string \<times> string) list" where
  "console_WINNING_RULES = [(''r'', ''s''), (''s'', ''p''), (''p'', ''r'')]"

text \<open>\<open>Game.calculateRoundScore\<close> of console/game.js; its local table \<open>winning\<close>
  has the entries of \<open>console_WINNING_RULES\<close>. It validates nothing.\<close>

definition Game_winning :: "(string \<times> string) list" where
  "Game_winning = [(''r'', ''s''), (''s'', ''p''), (''p'', ''r'')]"

text \<open>The table \<open>winning\<close> local to \<open>AIPlayer.calculateRoundScore\<close> of console/game.js.\<close>

definition AIPlayer_winning :: "(string \<times> string) list" where
  "AIPlayer_winning = [(''r'', ''s''), (''s'', ''p''), (''p'', ''r'')]"

definition Game_calculateRoundScore :: "string \<Rightarrow> int \<Rightarrow> string \<Rightarrow> int \<Rightarrow> int \<times> int" where
  "Game_calculateRoundScore prop1 val1 prop2 val2 =
     (if prop1 = prop2 then
        (if val1 > val2 then (val1 - val2, 0)
         else if val2 > val1 then (0, val2 - val1)
         else (0, 0))
      else if map_of Game_winning prop1 = Some prop2 \<and> val1 > val2 then (val1 - val2, 0)
      else if map_of Game_winning prop2 = Some prop1 \<and> val2 > val1 then (0, val2 - val1)
      else (0, 0))"

text \<open>The console name of a legacy property: the two tables \<open>console_PROPERTIES\<close> and
  \<open>LEGACY_PROPERTIES\<close> share their keys \<open>ROCK\<close>, \<open>PAPER\<close>, \<open>SCISSORS\<close>.\<close>

definition console_to_legacy :: "string \<Rightarrow> string option" where
  "console_to_legacy c =
     (case map_of (map (\<lambda>(k, v). (v, k)) console_PROPERTIES) c of
        None \<Rightarrow> None
      | Some k \<Rightarrow> map_of LEGACY_PROPERTIES k)"

text \<open>A console property read in the engine's names: through the legacy name and
  \<open>normalizeProperty\<close>.\<close>

definition console_to_engine :: "string \<Rightarrow> string option" where
  "console_to_engine c = map_option normalizeProperty (console_to_legacy c)"

section \<open>The scoring rule as the specification words it\<close>

text \<open>The four steps of the specification, over a dominance relation \<open>dominates\<close>:
  equal properties give the absolute difference to the higher value; otherwise the
  dominating side scores the difference when its value is strictly higher; otherwise
  nobody scores.\<close>

definition spec_score ::
  "(string \<Rightarrow> string \<Rightarrow> bool) \<Rightarrow> string \<Rightarrow> int \<Rightarrow> string \<Rightarrow> int \<Rightarrow> int \<times> int" where
  "spec_score dominates propA valA propB valB =
     (if propA = propB then
        (if valA > valB then (\<bar>valA - valB\<bar>, 0)
         else if valB > valA then (0, \<bar>valA - valB\<bar>)
         else (0, 0))
      else if dominates propA propB \<and> valA > valB then (valA - valB, 0)
      else if dominates propB propA \<and> valB > valA then (0, valB - valA)
      else (0, 0))"

text \<open>Dominance as each module's table gives it.\<close>

definition dominates :: "string \<Rightarrow> string \<Rightarrow> bool" where
  "dominates a b = (map_of WINNING_RULES a = Some b)"

definition console_dominates :: "string \<Rightarrow> string \<Rightarrow> bool" where
  "console_dominates a b = (map_of console_WINNING_RULES a = Some b)"

section \<open>A match for the examples\<close>

text \<open>Two hands of three cards of the universe (the identifiers are those
  \<open>generateAllCards\<close> gives them), the match built from them, and the calls of one
  card-game: three rounds played by explicit selection, and the same followed by a
  further round in which each side names \<open>rock\<close>.\<close>

definition hand1 :: "card list" where
  "hand1 = [\<lparr>card_id = 0, deception = 2, magic = 9, attack = 9\<rparr>,
            \<lparr>card_id = 1, deception = 3, magic = 8, attack = 9\<rparr>,
            \<lparr>card_id = 2, deception = 3, magic = 9, attack = 8\<rparr>]"

definition hand2 :: "card list" where
  "hand2 = [\<lparr>card_id = 8, deception = 5, magic = 8, attack = 7\<rparr>,
            \<lparr>card_id = 11, deception = 6, magic = 6, attack = 8\<rparr>,
            \<lparr>card_id = 12, deception = 6, magic = 7, attack = 7\<rparr>]"

definition match0 :: "error + MatchManager" where
  "match0 = MatchManager_new hand1 hand2 ''demo''"

definition three_rounds :: "call list" where
  "three_rounds =
     [SelectProperty 1 ''attack'', SelectProperty 2 ''attack'', AdvanceToNextRound,
      SelectProperty 1 ''deception'', SelectProperty 2 ''magic'', AdvanceToNextRound,
      SelectProperty 1 ''magic'', SelectProperty 2 ''deception'']"

definition four_rounds :: "call list" where
  "four_rounds =
     three_rounds @ [AdvanceToNextRound, SelectProperty 1 ''rock'', SelectProperty 2 ''rock'']"

text \<open>A call that returned, as opposed to one that threw.\<close>

definition succeeds :: "error + 'a \<Rightarrow> bool" where
  "succeeds r = (case r of Inl e \<Rightarrow> False | Inr x \<Rightarrow> True)"

section \<open>Scoring: proofs\<close>

lemma normalizeProperty_valid_cases:
  "isValidProperty p \<Longrightarrow>
     normalizeProperty p = ''deception'' \<or> normalizeProperty p = ''magic'' \<or>
     normalizeProperty p = ''attack''"
  by (simp add: isValidProperty_def VALID_PROPERTIES_def)

text \<open>
  C1. For valid property names (legacy names included) and values in 1..9,
  \<open>GameRules.calculateRoundScore\<close> returns what the four-step algorithm of the
  specification prescribes for the normalised names under the dominance of
  \<open>WINNING_RULES\<close>; the console's \<open>Game.calculateRoundScore\<close> does the same under the
  console's table, for all inputs.
\<close>

theorem calculateRoundScore_refines_spec:
  assumes "isValidProperty prop1" and "isValidProperty prop2"
    and "isValidPropertyValue val1" and "isValidPropertyValue val2"
  shows "calculateRoundScore prop1 val1 prop2 val2 =
           Inr (spec_score dominates (normalizeProperty prop1) val1 (normalizeProperty prop2) val2)
         \<and> Game_calculateRoundScore c1 w1 c2 w2 = spec_score console_dominates c1 w1 c2 w2"
  using assms
  by (simp add: calculateRoundScore_def spec_score_def dominates_def Let_def
      Game_calculateRoundScore_def console_dominates_def Game_winning_def
      console_WINNING_RULES_def)

theorem calculateRoundScore_refines_spec_witness:
  "calculateRoundScore ''rock'' 9 ''attack'' 7 = Inr (2, 0)
   \<and> calculateRoundScore ''attack'' 9 ''attack'' 7 = Inr (2, 0)
   \<and> calculateRoundScore ''deception'' 2 ''magic'' 8 = Inr (0, 6)
   \<and> calculateRoundScore ''magic'' 3 ''deception'' 8 = Inr (0, 0)
   \<and> Game_calculateRoundScore ''r'' 9 ''s'' 7 = (2, 0)"
proof -
  have v: "isValidProperty ''rock''" "isValidProperty ''attack''"
    "isValidProperty ''deception''" "isValidProperty ''magic''"
    by (simp_all add: isValidProperty_def normalizeProperty_def LEGACY_PROPERTY_MAP_def
        VALID_PROPERTIES_def)
  have n: "isValidPropertyValue 9" "isValidPropertyValue 7" "isValidPropertyValue 2"
    "isValidPropertyValue 8" "isValidPropertyValue 3"
    by (simp_all add: isValidPropertyValue_def)
  have e: "normalizeProperty ''rock'' = ''deception''" "normalizeProperty ''attack'' = ''attack''"
    "normalizeProperty ''deception'' = ''deception''" "normalizeProperty ''magic'' = ''magic''"
    by (simp_all add: normalizeProperty_def LEGACY_PROPERTY_MAP_def)
  have d: "dominates ''deception'' ''attack''" "\<not> dominates ''deception'' ''magic''"
    "dominates ''magic'' ''deception''" "console_dominates ''r'' ''s''"
    by (simp_all add: dominates_def WINNING_RULES_def console_dominates_def
        console_WINNING_RULES_def)
  show ?thesis
    using calculateRoundScore_refines_spec [OF v(1) v(2) n(1) n(2), of "''r''" 9 "''s''" 7]
      calculateRoundScore_refines_spec [OF v(2) v(2) n(1) n(2), of "''r''" 9 "''s''" 7]
      calculateRoundScore_refines_spec [OF v(3) v(4) n(3) n(4), of "''r''" 9 "''s''" 7]
      calculateRoundScore_refines_spec [OF v(4) v(3) n(5) n(4), of "''r''" 9 "''s''" 7]
    by (simp add: e d spec_score_def)
qed

lemma dominates_iff:
  "dominates a b \<longleftrightarrow>
     (a = ''deception'' \<and> b = ''attack'') \<or> (a = ''attack'' \<and> b = ''magic'') \<or>
     (a = ''magic'' \<and> b = ''deception'')"
  by (auto simp: dominates_def WINNING_RULES_def split: if_splits)

lemma console_dominates_iff:
  "console_dominates a b \<longleftrightarrow>
     (a = ''r'' \<and> b = ''s'') \<or> (a = ''s'' \<and> b = ''p'') \<or> (a = ''p'' \<and> b = ''r'')"
  by (auto simp: console_dominates_def console_WINNING_RULES_def split: if_splits)

lemma console_to_engine_simps:
  "console_to_engine ''r'' = Some ''deception''"
  "console_to_engine ''p'' = Some ''magic''"
  "console_to_engine ''s'' = Some ''attack''"
  by (simp_all add: console_to_engine_def console_to_legacy_def console_PROPERTIES_def
      LEGACY_PROPERTIES_def normalizeProperty_def LEGACY_PROPERTY_MAP_def)

text \<open>
  C3. Dominance is a total 3-cycle. In \<open>GameRules.WINNING_RULES\<close> every property
  dominates exactly one property, is dominated by exactly one, does not dominate itself,
  and of two different properties exactly one dominates the other; only the three
  properties are related. The console's table has the same shape, the tables local to the
  console's \<open>Game.calculateRoundScore\<close> and \<open>AIPlayer.calculateRoundScore\<close> are that
  table, and read through
  rock/paper/scissors in the engine's names the console's relation is the engine's.
  \<open>doesPropertyBeat\<close> is the engine's relation on normalised names.
\<close>

theorem dominance_is_total_3cycle:
  "(\<forall>p \<in> set VALID_PROPERTIES.
       (\<exists>!q. dominates p q) \<and> (\<exists>!q. dominates q p) \<and> \<not> dominates p p
       \<and> (\<forall>q \<in> set VALID_PROPERTIES. p \<noteq> q \<longrightarrow> dominates p q \<noteq> dominates q p))
   \<and> (\<forall>p q. dominates p q \<longrightarrow> p \<in> set VALID_PROPERTIES \<and> q \<in> set VALID_PROPERTIES)
   \<and> (\<forall>p \<in> set (map snd console_PROPERTIES).
       (\<exists>!q. console_dominates p q) \<and> (\<exists>!q. console_dominates q p)
       \<and> \<not> console_dominates p p)
   \<and> Game_winning = console_WINNING_RULES \<and> AIPlayer_winning = console_WINNING_RULES
   \<and> (\<forall>a \<in> set (map snd console_PROPERTIES). \<forall>b \<in> set (map snd console_PROPERTIES).
        \<exists>a' b'. console_to_engine a = Some a' \<and> console_to_engine b = Some b'
          \<and> console_dominates a b = dominates a' b')
   \<and> (\<forall>p q. doesPropertyBeat p q = dominates (normalizeProperty p) (normalizeProperty q))"
  apply (intro conjI)
  subgoal by (auto simp: dominates_iff VALID_PROPERTIES_def)
  subgoal by (auto simp: dominates_iff VALID_PROPERTIES_def)
  subgoal by (auto simp: console_dominates_iff console_PROPERTIES_def)
  subgoal by (simp add: Game_winning_def console_WINNING_RULES_def)
  subgoal by (simp add: AIPlayer_winning_def console_WINNING_RULES_def)
  subgoal by (auto simp: console_dominates_iff dominates_iff console_PROPERTIES_def
        console_to_engine_simps)
  subgoal by (simp add: doesPropertyBeat_def dominates_def)
  done

theorem dominance_is_total_3cycle_witness:
  "(\<exists>!q. dominates ''deception'' q) \<and> (\<exists>!q. dominates q ''deception'')
   \<and> \<not> dominates ''deception'' ''deception''
   \<and> (\<exists>!q. console_dominates ''r'' q) \<and> (\<exists>!q. console_dominates q ''r'')
   \<and> \<not> console_dominates ''r'' ''r''"
proof -
  have m: "''deception'' \<in> set VALID_PROPERTIES" "''r'' \<in> set (map snd console_PROPERTIES)"
    by (simp_all add: VALID_PROPERTIES_def console_PROPERTIES_def)
  note a = bspec [OF dominance_is_total_3cycle [THEN conjunct1] m(1)]
  note b = bspec [OF dominance_is_total_3cycle [THEN conjunct2, THEN conjunct2, THEN conjunct1]
      m(2)]
  from a b show ?thesis
    by (elim conjE) (intro conjI; assumption)
qed

text \<open>
  C10. For valid property names and values in 1..9 the scoring function returns a pair
  of integers, each between \<open>MIN_SCORE = 0\<close> and \<open>MAX_SINGLE_ROUND_SCORE = 8\<close>, and at
  least one of the two is 0.
\<close>

theorem calculateRoundScore_bounds:
  assumes "isValidProperty prop1" and "isValidProperty prop2"
    and "isValidPropertyValue val1" and "isValidPropertyValue val2"
  shows "\<exists>a b. calculateRoundScore prop1 val1 prop2 val2 = Inr (a, b)
           \<and> MIN_SCORE \<le> a \<and> a \<le> MAX_SINGLE_ROUND_SCORE
           \<and> MIN_SCORE \<le> b \<and> b \<le> MAX_SINGLE_ROUND_SCORE
           \<and> (a = 0 \<or> b = 0)"
  using assms
  by (auto simp: calculateRoundScore_def Let_def isValidPropertyValue_def MIN_SCORE_def
      MAX_SINGLE_ROUND_SCORE_def)

theorem calculateRoundScore_bounds_witness:
  "\<exists>a b. calculateRoundScore ''deception'' 9 ''scissors'' 1 = Inr (a, b)
     \<and> a = 8 \<and> b = 0 \<and> a \<le> MAX_SINGLE_ROUND_SCORE"
proof -
  have v: "isValidProperty ''deception''" "isValidProperty ''scissors''"
    by (simp_all add: isValidProperty_def normalizeProperty_def LEGACY_PROPERTY_MAP_def
        VALID_PROPERTIES_def)
  have n: "isValidPropertyValue 9" "isValidPropertyValue 1"
    by (simp_all add: isValidPropertyValue_def)
  have e: "calculateRoundScore ''deception'' 9 ''scissors'' 1 = Inr (8, 0)"
    by code_simp
  from calculateRoundScore_bounds [OF v n]
  obtain a b where r: "calculateRoundScore ''deception'' 9 ''scissors'' 1 = Inr (a, b)"
    and u: "a \<le> MAX_SINGLE_ROUND_SCORE"
    by (elim exE conjE)
  from r e have "a = 8" and "b = 0"
    by simp_all
  with r u show ?thesis
    by simp
qed

section \<open>The card universe: proofs\<close>

text \<open>The generator of the shared core: 36 cards, numbered 0 to 35 in the order of
  generation, each with sum 20 and every property in 1..9.\<close>

lemma generateAllCards_universe:
  "length generateAllCards = 36 \<and> list_all card_invariant generateAllCards
   \<and> map card_id generateAllCards = [0..35] \<and> getTotalCardCount = 36"
  by code_simp

text \<open>
  C2. The claim holds of \<open>CardGenerator.generateAllCards\<close> of the shared core
  (\<open>generateAllCards_universe\<close>). The console's \<open>generateAllPossibleCards\<close> runs
  \<open>rock\<close> over 2..18 and its \<open>Card\<close> constructor checks the sum only: it returns 81
  cards, among them rock 10, paper 1, scissors 9, beyond the console's own
  \<open>PROPERTY_MAX_VALUE = 9\<close>.
\<close>

theorem console_generator_leaves_range:
  "(case generateAllPossibleCards of
      Inl e \<Rightarrow> False
    | Inr cards \<Rightarrow>
        length cards = 81 \<and> \<lparr>rock = 10, paper = 1, scissors = 9\<rparr> \<in> set cards
        \<and> \<not> list_all (\<lambda>c. rock c \<le> console_PROPERTY_MAX_VALUE) cards)"
  by code_simp

section \<open>The round state machine: proofs\<close>

text \<open>A commit that throws leaves the manager as it was.\<close>

lemma selectProperty_failure_leaves_state:
  "fst (RoundManager_selectProperty rm playerNumber property) = Inl e
   \<Longrightarrow> snd (RoundManager_selectProperty rm playerNumber property) = rm"
  by (auto simp: RoundManager_selectProperty_def split: if_splits)

text \<open>A side that committed a name cannot commit the same name again.\<close>

lemma selectProperty_same_name_rejected:
  assumes "RoundManager_selectProperty rm playerNumber property = (Inr ok, rm')"
  shows "RoundManager_selectProperty rm' playerNumber property
           = (Inl (PropertyNotAvailable property playerNumber), rm')"
  using assms
  by (auto simp: RoundManager_selectProperty_def isPropertyAvailable_def usedProperties_def
      split: if_splits)

text \<open>
  C4. The two lemmas above are the part of the claim the code keeps: a rejected commit
  changes nothing, and the same name is rejected the second time. A legacy alias is not:
  after side 1 committed \<open>deception\<close>, its commit of \<open>rock\<close> returns \<open>true\<close>, although
  \<open>rock\<close> normalises to \<open>deception\<close> and reads the same value of the card.
\<close>

theorem selectProperty_accepts_legacy_alias:
  "(let s1 = RoundManager_selectProperty RoundManager_new 1 ''deception'';
        s2 = RoundManager_selectProperty (snd s1) 1 ''rock''
    in fst s1 = Inr True \<and> fst s2 = Inr True
       \<and> usedPlayer1Properties (snd s2) = [''deception'', ''rock'']
       \<and> normalizeProperty ''rock'' = ''deception''
       \<and> Card_getProperty (hd hand1) ''rock'' = Card_getProperty (hd hand1) ''deception'')"
  by code_simp

section \<open>The score aggregator: proofs\<close>

text \<open>With the bonus magnitudes of the configuration, all zero, no bonus is ever added:
  a round adds its points to the two scores and nothing else, and completing a card-game
  leaves the scores as they are.\<close>

lemma addBonusPoints_zero:
  "addBonusPoints sm playerNumber 0 bonusType = Inr sm"
  by (simp add: addBonusPoints_def)

lemma checkForBonuses_default:
  "checkForBonuses sm rr = Inr sm"
  by (simp add: checkForBonuses_def WIN_BONUS_def addBonusPoints_zero bindE_def)

lemma addPoints_side1:
  assumes "0 \<le> p"
  shows "\<exists>sm'. addPoints sm 1 p src = Inr sm'
           \<and> player1Score sm' = player1Score sm + p \<and> player2Score sm' = player2Score sm
           \<and> bonusPoints1 sm' = bonusPoints1 sm \<and> bonusPoints2 sm' = bonusPoints2 sm"
  using assms by (simp add: addPoints_def recordScoreChange_def Let_def)

lemma addPoints_side2:
  assumes "0 \<le> p"
  shows "\<exists>sm'. addPoints sm 2 p src = Inr sm'
           \<and> player1Score sm' = player1Score sm \<and> player2Score sm' = player2Score sm + p
           \<and> bonusPoints1 sm' = bonusPoints1 sm \<and> bonusPoints2 sm' = bonusPoints2 sm"
  using assms by (simp add: addPoints_def recordScoreChange_def Let_def)

lemma updateWinStreak_scores:
  "player1Score (updateWinStreak sm n) = player1Score sm
   \<and> player2Score (updateWinStreak sm n) = player2Score sm
   \<and> bonusPoints1 (updateWinStreak sm n) = bonusPoints1 sm
   \<and> bonusPoints2 (updateWinStreak sm n) = bonusPoints2 sm"
  by (simp add: updateWinStreak_def Let_def)

lemma updateRoundStatistics_scores:
  "player1Score (updateRoundStatistics sm rr) = player1Score sm
   \<and> player2Score (updateRoundStatistics sm rr) = player2Score sm
   \<and> bonusPoints1 (updateRoundStatistics sm rr) = bonusPoints1 sm
   \<and> bonusPoints2 (updateRoundStatistics sm rr) = bonusPoints2 sm"
  by (cases "rr_winner rr")
    (simp_all add: updateRoundStatistics_def updateWinStreak_scores resetWinStreaks_def
      updateAverages_def Let_def)

lemma processRoundResult_adds_points:
  assumes "0 \<le> rr_player1Points rr" and "0 \<le> rr_player2Points rr"
  shows "\<exists>sm'. processRoundResult sm rr = Inr sm'
           \<and> player1Score sm' = player1Score sm + rr_player1Points rr
           \<and> player2Score sm' = player2Score sm + rr_player2Points rr
           \<and> bonusPoints1 sm' = bonusPoints1 sm \<and> bonusPoints2 sm' = bonusPoints2 sm"
proof -
  obtain a where a: "(if rr_player1Points rr > 0
        then addPoints sm 1 (rr_player1Points rr) ''round'' else Inr sm) = Inr a"
    "player1Score a = player1Score sm + rr_player1Points rr" "player2Score a = player2Score sm"
    "bonusPoints1 a = bonusPoints1 sm" "bonusPoints2 a = bonusPoints2 sm"
  proof (cases "rr_player1Points rr > 0")
    case True
    from addPoints_side1 [OF assms(1), of sm "''round''"] obtain sm' where
      "addPoints sm 1 (rr_player1Points rr) ''round'' = Inr sm'"
      "player1Score sm' = player1Score sm + rr_player1Points rr"
      "player2Score sm' = player2Score sm"
      "bonusPoints1 sm' = bonusPoints1 sm" "bonusPoints2 sm' = bonusPoints2 sm"
      by (elim exE conjE)
    with True that show ?thesis by simp
  next
    case False
    with assms(1) have "rr_player1Points rr = 0" by simp
    with that [of sm] show ?thesis by simp
  qed
  obtain b where b: "(if rr_player2Points rr > 0
        then addPoints a 2 (rr_player2Points rr) ''round'' else Inr a) = Inr b"
    "player1Score b = player1Score a" "player2Score b = player2Score a + rr_player2Points rr"
    "bonusPoints1 b = bonusPoints1 a" "bonusPoints2 b = bonusPoints2 a"
  proof (cases "rr_player2Points rr > 0")
    case True
    from addPoints_side2 [OF assms(2), of a "''round''"] obtain sm' where
      "addPoints a 2 (rr_player2Points rr) ''round'' = Inr sm'"
      "player1Score sm' = player1Score a"
      "player2Score sm' = player2Score a + rr_player2Points rr"
      "bonusPoints1 sm' = bonusPoints1 a" "bonusPoints2 sm' = bonusPoints2 a"
      by (elim exE conjE)
    with True that show ?thesis by simp
  next
    case False
    with assms(2) have "rr_player2Points rr = 0" by simp
    with that [of a] show ?thesis by simp
  qed
  have "processRoundResult sm rr = Inr (updateRoundStatistics b rr)"
    unfolding processRoundResult_def a(1) by (simp add: bindE_def b(1) checkForBonuses_default)
  then show ?thesis
    by (simp add: updateRoundStatistics_scores a b)
qed

lemma ScoreManager_completeCardGame_scores:
  "\<exists>sm'. ScoreManager_completeCardGame sm rrs g = Inr sm'
     \<and> player1Score sm' = player1Score sm \<and> player2Score sm' = player2Score sm
     \<and> bonusPoints1 sm' = bonusPoints1 sm \<and> bonusPoints2 sm' = bonusPoints2 sm"
  by (simp add: ScoreManager_completeCardGame_def checkForComebacks_def COMEBACK_BONUS_def
      addBonusPoints_zero Let_def split: winner.splits)

section \<open>The match coordinator: proofs\<close>

text \<open>When \<open>selectCard\<close> returns: the phase, the index range, and an index not below
  \<open>currentCardGame - 1\<close>.\<close>

lemma selectCard_succeeds_iff:
  "succeeds (selectCard m playerNumber cardIndex) \<longleftrightarrow>
     matchPhase m = CARD_SELECTION \<and> 0 \<le> cardIndex
     \<and> cardIndex < int (length (if playerNumber = 1 then player1Cards m else player2Cards m))
     \<and> currentCardGame m - 1 \<le> cardIndex"
  by (auto simp: selectCard_def succeeds_def Let_def)

text \<open>Property selection starts exactly when both sides have a card selected.\<close>

lemma selectCard_phase:
  assumes "selectCard m playerNumber cardIndex = Inr m'"
  shows "matchPhase m' = (if player1SelectedCard m' \<noteq> None \<and> player2SelectedCard m' \<noteq> None
                          then PROPERTY_SELECTION else CARD_SELECTION)"
  using assms
  by (auto simp: selectCard_def Let_def canProceedToPropertySelection_def
      startPropertySelection_def split: if_splits)

text \<open>
  C5. Outside card selection \<open>selectCard\<close> throws, and property selection starts only
  once both sides have picked (the two lemmas above). But a played card is recognised by
  its index being below \<open>currentCardGame - 1\<close>, not by having been played: after a first
  card-game played with card 2, side 1 may select card 2 again, and card 0, never
  played, is refused as already used.
\<close>

theorem selectCard_accepts_played_card:
  "(case run match0 ([SelectCard 1 2, SelectCard 2 2] @ three_rounds
                       @ [CompleteCardGame, AdvanceToNextCard]) of
      Inl e \<Rightarrow> False
    | Inr m \<Rightarrow>
        matchPhase m = CARD_SELECTION \<and> currentCardGame m = 2
        \<and> playedCards m 1 = [2]
        \<and> succeeds (selectCard m 1 2)
        \<and> selectCard m 1 0 = Inl (CardAlreadyUsed 0))"
  by code_simp

text \<open>Completing a card-game records it and leaves the phase card-complete or
  game-over; the auto-played final round ends in it.\<close>

lemma completeCardGame_completes:
  assumes "MatchManager_completeCardGame m = Inr m'"
  shows "(matchPhase m' = CARD_COMPLETE \<or> matchPhase m' = GAME_OVER)
         \<and> length (cardGameResults m') = length (cardGameResults m) + 1
         \<and> cg_rounds (last (cardGameResults m')) = roundResults (roundManager m)"
  using assms
  by (auto simp: MatchManager_completeCardGame_def bindE_def Let_def completeMatch_def
      split: sum.splits if_splits)

lemma autoPlayFinalRound_completes:
  assumes "autoPlayFinalRound m = Inr m'"
  shows "(matchPhase m' = CARD_COMPLETE \<or> matchPhase m' = GAME_OVER)
         \<and> length (cardGameResults m') = length (cardGameResults m) + 1"
  using assms
  by (auto simp: autoPlayFinalRound_def bindE_def split: sum.splits prod.splits
      dest!: completeCardGame_completes)

text \<open>A round computed while \<open>currentRound\<close> is at most \<open>maxRounds\<close>, with a side
  that does not have exactly one property left, ends in the phase round-result with no
  card-game recorded.\<close>

lemma calculateRound_explicit_round_stays_open:
  assumes "calculateRound m = Inr m'"
    and "currentRound (roundManager m) \<le> maxRounds (roundManager m)"
    and "length (getAvailableProperties (roundManager m) 1) \<noteq> 1
         \<or> length (getAvailableProperties (roundManager m) 2) \<noteq> 1"
  shows "matchPhase m' = ROUND_RESULT \<and> cardGameResults m' = cardGameResults m
         \<and> currentRound (roundManager m') = currentRound (roundManager m)"
  using assms
  by (auto simp: calculateRound_def bindE_def calculateRoundResult_def Let_def
      areAllRoundsComplete_def shouldAutoPlayRound_def getAvailableProperties_def
      usedProperties_def
      split: sum.splits prod.splits option.splits if_splits)

text \<open>
  C6. The auto-played final round completes the card-game
  (\<open>autoPlayFinalRound_completes\<close>). A third round resolved by explicit selection does
  not (\<open>calculateRound_explicit_round_stays_open\<close>): \<open>calculateRound\<close> asks \<open>areAllRoundsComplete\<close>, which is \<open>currentRound > 3\<close>, while
  \<open>currentRound\<close> is still 3. The phase stays round-result and no card-game result is
  recorded; \<open>advanceToNextRound\<close> then succeeds into a fourth round of property
  selection in which neither side has a property left.
\<close>

theorem third_round_leaves_card_game_open:
  "(case run match0 ([SelectCard 1 0, SelectCard 2 0] @ three_rounds) of
      Inl e \<Rightarrow> False
    | Inr m \<Rightarrow>
        length (roundResults (roundManager m)) = 3
        \<and> matchPhase m = ROUND_RESULT \<and> cardGameResults m = []
        \<and> (case advanceToNextRound m of
             (advanced, m') \<Rightarrow>
               advanced \<and> matchPhase m' = PROPERTY_SELECTION
               \<and> currentRound (roundManager m') = 4
               \<and> getAvailableProperties (roundManager m') 1 = []
               \<and> getAvailableProperties (roundManager m') 2 = []))"
  by code_simp

text \<open>The match of the examples driven as the web driver drives it (three rounds by
  selection, then \<open>completeCardGame\<close>, then \<open>advanceToNextCard\<close>): three card-games of
  three rounds, and final scores that are the sums of the round points.\<close>

lemma driven_match_example:
  "(case run match0
           ([SelectCard 1 0, SelectCard 2 0] @ three_rounds @ [CompleteCardGame, AdvanceToNextCard]
            @ [SelectCard 1 1, SelectCard 2 1] @ three_rounds @ [CompleteCardGame, AdvanceToNextCard]
            @ [SelectCard 1 2, SelectCard 2 2] @ three_rounds @ [CompleteCardGame]) of
      Inl e \<Rightarrow> False
    | Inr m \<Rightarrow>
        matchPhase m = GAME_OVER
        \<and> (case matchResult m of
             None \<Rightarrow> False
           | Some r \<Rightarrow>
               map (\<lambda>g. length (cg_rounds g)) (mr_cardResults r) = [3, 3, 3]
               \<and> mr_finalScores r =
                   (sum_list (map rr_player1Points (concat (map cg_rounds (mr_cardResults r)))),
                    sum_list (map rr_player2Points (concat (map cg_rounds (mr_cardResults r)))))))"
  by code_simp

text \<open>
  C7. A match can reach game-over with card-games of four rounds. After the third round
  (see C6) \<open>advanceToNextRound\<close> opens a fourth round; each side commits the legacy
  name \<open>rock\<close> (see C4); now \<open>currentRound > 3\<close> holds and \<open>calculateRound\<close> completes
  the card-game with four round results. Done in all three card-games, the match result
  holds 3 card-games of 4 rounds each, the final scores sum 12 rounds, and the round
  manager is in a state its own \<open>validateState\<close> rejects.
\<close>

theorem completed_match_with_four_rounds:
  "(case run match0
           ([SelectCard 1 0, SelectCard 2 0] @ four_rounds @ [AdvanceToNextCard]
            @ [SelectCard 1 1, SelectCard 2 1] @ four_rounds @ [AdvanceToNextCard]
            @ [SelectCard 1 2, SelectCard 2 2] @ four_rounds) of
      Inl e \<Rightarrow> False
    | Inr m \<Rightarrow>
        matchPhase m = GAME_OVER
        \<and> (case matchResult m of
             None \<Rightarrow> False
           | Some r \<Rightarrow>
               map (\<lambda>g. length (cg_rounds g)) (mr_cardResults r) = [4, 4, 4]
               \<and> mr_finalScores r = (13, 22))
        \<and> \<not> RoundManager_validateState (roundManager m))"
  by code_simp

section \<open>Export and import: proofs\<close>

lemma Card_roundtrip:
  "card_invariant c \<Longrightarrow> Card_fromJSON (Card_toJSON c) = Inr c"
  by (simp add: card_invariant_def Card_fromJSON_def Card_toJSON_def Card_new_def
      Card_isValidProperty_def PROPERTY_SUM_def MIN_PROPERTY_VALUE_def MAX_PROPERTY_VALUE_def)

lemma cards_roundtrip:
  "list_all card_invariant cs \<Longrightarrow> cards_fromJSON (map Card_toJSON cs) = Inr cs"
  by (induction cs) (simp_all add: Card_roundtrip bindE_def)

lemma RoundManager_roundtrip:
  assumes "RoundManager_validateState rm" and "maxRounds rm \<noteq> 0"
    and "currentPlayer1Property rm \<noteq> Some []" and "currentPlayer2Property rm \<noteq> Some []"
  shows "RoundManager_importState (RoundManager_exportState rm) = Inr rm"
proof -
  have r: "currentRound rm \<noteq> 0"
    using assms(1) by (auto simp: RoundManager_validateState_def split: if_splits)
  have e: "RoundManager_exportState rm = rm"
    by (simp add: RoundManager_exportState_def)
  have n: "or_null (currentPlayer1Property rm) = currentPlayer1Property rm"
    "or_null (currentPlayer2Property rm) = currentPlayer2Property rm"
    using assms(3,4) by (auto simp: or_null_def split: option.splits)
  show ?thesis
    using assms(1,2) r
    by (simp add: RoundManager_importState_def Let_def or_default_def n e
        e [unfolded RoundManager_exportState_def])
qed

lemma ScoreManager_roundtrip:
  assumes "ScoreManager_validateState sm"
  shows "ScoreManager_importState (ScoreManager_exportState sm) = Inr sm"
proof -
  have e: "ScoreManager_exportState sm = sm"
    by (simp add: ScoreManager_exportState_def)
  have d: "or_default x 0 = x" for x
    by (simp add: or_default_def)
  show ?thesis
    using assms
    by (simp add: ScoreManager_importState_def Let_def d e
        e [unfolded ScoreManager_exportState_def])
qed

text \<open>The round trip on a state that \<open>validateState\<close> accepts: the import returns the
  state itself.\<close>

lemma import_export_valid_state:
  assumes "MatchManager_validateState m"
    and "list_all card_invariant (player1Cards m)" and "list_all card_invariant (player2Cards m)"
    and "gameMode m \<noteq> []" and "maxCardGames m \<noteq> 0" and "maxRounds (roundManager m) \<noteq> 0"
    and "currentPlayer1Property (roundManager m) \<noteq> Some []"
    and "currentPlayer2Property (roundManager m) \<noteq> Some []"
  shows "importState (exportState m) = Inr m"
proof -
  have v: "RoundManager_validateState (roundManager m)"
    "ScoreManager_validateState (scoreManager m)" "currentCardGame m \<noteq> 0"
    using assms(1) by (auto simp: MatchManager_validateState_def split: if_splits)
  have eta: "\<lparr>gameMode = gameMode m, player1Cards = player1Cards m,
      player2Cards = player2Cards m, currentCardGame = currentCardGame m,
      maxCardGames = maxCardGames m, matchPhase = matchPhase m,
      player1SelectedCard = player1SelectedCard m,
      player2SelectedCard = player2SelectedCard m,
      roundManager = roundManager m, scoreManager = scoreManager m,
      cardGameResults = cardGameResults m, matchResult = matchResult m\<rparr> = m"
    by simp
  show ?thesis
    using assms
    by (simp add: importState_def exportState_def bindE_def cards_roundtrip
        RoundManager_roundtrip [OF v(1) assms(6,7,8)] ScoreManager_roundtrip [OF v(2)]
        or_default_def v(3) Let_def eta)
qed

text \<open>Computing a round takes a round manager that \<open>validateState\<close> accepts to one it
  rejects: the result is pushed while \<open>currentRound\<close> stays, and the validator expects
  \<open>min (currentRound - 1) maxRounds\<close> results.\<close>

lemma calculateRoundResult_invalidates:
  assumes "calculateRoundResult rm c1 c2 = Inr (rr, rm')"
    and "RoundManager_validateState rm"
  shows "\<not> RoundManager_validateState rm'"
  using assms
  by (auto simp: calculateRoundResult_def bindE_def RoundManager_validateState_def Let_def
      split: option.splits sum.splits if_splits)

text \<open>The import of an exported state whose round manager the validator rejects throws.\<close>

lemma import_export_invalid_round_state:
  assumes "\<not> RoundManager_validateState (roundManager m)"
    and "maxRounds (roundManager m) \<noteq> 0" and "currentRound (roundManager m) \<noteq> 0"
    and "currentPlayer1Property (roundManager m) \<noteq> Some []"
    and "currentPlayer2Property (roundManager m) \<noteq> Some []"
    and "list_all card_invariant (player1Cards m)" and "list_all card_invariant (player2Cards m)"
  shows "importState (exportState m) = Inl InvalidRoundManagerState"
proof -
  have n: "or_null (currentPlayer1Property (roundManager m)) = currentPlayer1Property (roundManager m)"
    "or_null (currentPlayer2Property (roundManager m)) = currentPlayer2Property (roundManager m)"
    using assms(4,5) by (auto simp: or_null_def split: option.splits)
  have e: "RoundManager_exportState (roundManager m) = roundManager m"
    by (simp add: RoundManager_exportState_def)
  have "RoundManager_importState (RoundManager_exportState (roundManager m))
          = Inl InvalidRoundManagerState"
    using assms(1,2,3)
    by (simp add: RoundManager_importState_def Let_def or_default_def n e
        e [unfolded RoundManager_exportState_def])
  then show ?thesis
    using assms(6,7) by (simp add: importState_def exportState_def bindE_def cards_roundtrip)
qed

text \<open>
  C8. The round trip returns the state itself on every state that \<open>validateState\<close>
  accepts (\<open>import_export_valid_state\<close>). It does not on the states the engine is in
  after a round was computed: there the round manager holds as many results as
  \<open>currentRound\<close>, its validator expects one fewer, and \<open>importState\<close> of the exported
  tree throws. The state after the first round of a match is one.
\<close>

theorem import_rejects_exported_round_result_state:
  "(case run match0 [SelectCard 1 0, SelectCard 2 0,
                     SelectProperty 1 ''attack'', SelectProperty 2 ''attack''] of
      Inl e \<Rightarrow> False
    | Inr m \<Rightarrow>
        matchPhase m = ROUND_RESULT
        \<and> importState (exportState m) = Inl InvalidRoundManagerState)"
  by code_simp

section \<open>The AI decision engine: proofs\<close>

lemma applyDifficultyModifier_no_noise:
  assumes "difficulty \<noteq> EASY" and "difficulty \<noteq> NORMAL"
  shows "applyDifficultyModifier b difficulty c p rnd1 k
       = applyDifficultyModifier b difficulty c p rnd2 k"
  using assms by (simp add: applyDifficultyModifier_def)

lemma evaluateMove_no_noise:
  assumes "difficulty \<noteq> EASY" and "difficulty \<noteq> NORMAL"
  shows "evaluateMove c p opps used difficulty rnd1 k
       = evaluateMove c p opps used difficulty rnd2 k"
  unfolding evaluateMove_def Let_def
  by (simp add: applyDifficultyModifier_no_noise [OF assms, of _ c p rnd1 _ rnd2])

lemma chooseBestProperty_step_no_noise:
  assumes "difficulty \<noteq> EASY" and "difficulty \<noteq> NORMAL"
  shows "chooseBestProperty_step c opps used difficulty rnd1 p st
       = chooseBestProperty_step c opps used difficulty rnd2 p st"
  unfolding chooseBestProperty_step_def
  by (simp add: evaluateMove_no_noise [OF assms, of c p opps used rnd1 _ rnd2])

lemma chooseBestProperty_fold_no_noise:
  assumes "difficulty \<noteq> EASY" and "difficulty \<noteq> NORMAL"
  shows "fold (chooseBestProperty_step c opps used difficulty rnd1) ps st
       = fold (chooseBestProperty_step c opps used difficulty rnd2) ps st"
proof (induction ps arbitrary: st)
  case Nil
  show ?case by simp
next
  case (Cons p ps)
  show ?case
    by (simp add: Cons.IH
        chooseBestProperty_step_no_noise [OF assms, of c opps used rnd1 p st rnd2])
qed

text \<open>With the difficulty \<open>easy\<close> the choice does depend on what \<open>Math.random()\<close>
  returns, so the random source of the model is not idle.\<close>

lemma chooseBestProperty_easy_follows_random:
  "chooseBestProperty (hd hand1) [''magic'', ''attack''] hand2 [] EASY
     (\<lambda>k. if k = 0 then 0 else 99 / 100)
   \<noteq> chooseBestProperty (hd hand1) [''magic'', ''attack''] hand2 [] EASY
     (\<lambda>k. if k = 0 then 99 / 100 else 0)"
  by code_simp

text \<open>
  C9. For every card, list of available properties, opponent pool, list of properties the
  opponent used, and difficulty other than \<open>easy\<close> and \<open>normal\<close> (the two whose modifier
  calls \<open>Math.random()\<close>), \<open>chooseBestProperty\<close> returns the same result, a property or
  a throw, whatever \<open>Math.random()\<close> would return: two invocations with identical
  arguments agree.
\<close>

theorem chooseBestProperty_deterministic:
  assumes "difficulty \<noteq> EASY" and "difficulty \<noteq> NORMAL"
  shows "chooseBestProperty c props opps used difficulty rnd1
       = chooseBestProperty c props opps used difficulty rnd2"
  unfolding chooseBestProperty_def
  by (simp add: chooseBestProperty_fold_no_noise [OF assms, of c opps used rnd1 props _ rnd2])

theorem chooseBestProperty_deterministic_witness:
  "chooseBestProperty (hd hand1) [''deception'', ''magic'', ''attack''] hand2 [] HARD
     (\<lambda>k. if k = 0 then 0 else 99 / 100) = Inr ''magic''
   \<and> chooseBestProperty (hd hand1) [''deception'', ''magic'', ''attack''] hand2 [] HARD
     (\<lambda>k. if k = 0 then 99 / 100 else 0) = Inr ''magic''"
proof -
  have d: "HARD \<noteq> EASY" "HARD \<noteq> NORMAL"
    by (simp_all add: HARD_def EASY_def NORMAL_def)
  have v: "chooseBestProperty (hd hand1) [''deception'', ''magic'', ''attack''] hand2 [] HARD
     (\<lambda>k. if k = 0 then 0 else 99 / 100) = Inr ''magic''"
    by code_simp
  from chooseBestProperty_deterministic [OF d, of "hd hand1" "[''deception'', ''magic'', ''attack'']"
      hand2 "[]" "\<lambda>k. if k = 0 then 0 else 99 / 100" "\<lambda>k. if k = 0 then 99 / 100 else 0"] v
  show ?thesis
    by simp
qed

end
